theory Spec2Isabelle
  imports Complex_Main
begin

section \<open>Strings\<close>

text \<open>
  A Python \<open>str\<close> is a sequence of Unicode code points, and the classifier's patterns are
  Cyrillic, so a string is a list of code points. \<open>len\<close> is \<open>length\<close>.
  The floats of the program (confidences, scores, costs) are modelled as reals: rounding
  of the floating-point products is not represented.
\<close>

type_synonym pystr = "nat list"

definition str :: "string \<Rightarrow> pystr" where
  "str s = map of_char s"

text \<open>The code points for which \<open>str.isspace\<close> holds; \<open>str.split()\<close> splits at runs of them.\<close>

definition is_space :: "nat \<Rightarrow> bool" where
  "is_space c = ((9 \<le> c \<and> c \<le> 13) \<or> (28 \<le> c \<and> c \<le> 32) \<or> c = 133 \<or> c = 160
     \<or> c = 5760 \<or> (8192 \<le> c \<and> c \<le> 8202) \<or> c = 8232 \<or> c = 8233 \<or> c = 8239
     \<or> c = 8287 \<or> c = 12288)"

text \<open>\<open>query.split()\<close>: the maximal runs of non-space characters, \<open>w\<close> being the word read so far (reversed).\<close>

fun split_from :: "pystr \<Rightarrow> pystr \<Rightarrow> pystr list" where
  "split_from w [] = (if w = [] then [] else [rev w])"
| "split_from w (c # cs) =
     (if is_space c then (if w = [] then split_from [] cs else rev w # split_from [] cs)
      else split_from (c # w) cs)"

definition split :: "pystr \<Rightarrow> pystr list" where
  "split q = split_from [] q"

text \<open>\<open>keyword in query\<close>: the keyword occurs as a contiguous substring.\<close>

fun starts_with :: "pystr \<Rightarrow> pystr \<Rightarrow> bool" where
  "starts_with [] q = True"
| "starts_with (k # ks) [] = False"
| "starts_with (k # ks) (c # cs) = (k = c \<and> starts_with ks cs)"

fun str_contains :: "pystr \<Rightarrow> pystr \<Rightarrow> bool" where
  "str_contains k [] = (k = [])"
| "str_contains k (c # cs) = (starts_with k (c # cs) \<or> str_contains k cs)"

section \<open>Data model (core/models.py)\<close>

datatype QueryComplexity = SIMPLE | MODERATE | COMPLEX | MULTI_HOP

datatype RoutingStrategy = CLASSIC_RAG | AGENTIC_RAG | HYBRID | CACHE

text \<open>The \<open>.value\<close> of the two string enums.\<close>

fun complexity_value :: "QueryComplexity \<Rightarrow> pystr" where
  "complexity_value SIMPLE = str ''simple''"
| "complexity_value MODERATE = str ''moderate''"
| "complexity_value COMPLEX = str ''complex''"
| "complexity_value MULTI_HOP = str ''multi_hop''"

fun strategy_value :: "RoutingStrategy \<Rightarrow> pystr" where
  "strategy_value CLASSIC_RAG = str ''classic_rag''"
| "strategy_value AGENTIC_RAG = str ''agentic_rag''"
| "strategy_value HYBRID = str ''hybrid''"
| "strategy_value CACHE = str ''cache''"

text \<open>
  \<open>QueryMetadata\<close>. The \<open>timestamp\<close> field (the wall clock at construction) is left out;
  \<open>key_words\<close> is the field \<open>keywords\<close>.
\<close>

record QueryMetadata =
  query_id :: pystr
  original_query :: pystr
  language :: pystr
  complexity :: QueryComplexity
  complexity_score :: real
  entities :: "pystr list"
  intent :: pystr
  key_words :: "pystr list"
  embedding :: "real list option"
  user_id :: "pystr option"
  session_id :: "pystr option"

record RoutingDecision =
  strategy :: RoutingStrategy
  confidence :: real
  reasoning :: pystr
  fallback_strategies :: "RoutingStrategy list"
  estimated_time_ms :: int
  estimated_cost_usd :: real
  cache_hit :: bool

section \<open>The Python library, as parameters\<close>

text \<open>
  The regular-expression engine, \<open>str.lower\<close> and the formatting of an enum member in an
  f-string belong to the interpreter, not to the repository. They are parameters of the
  model, so every theorem below holds whatever they compute.
  \<open>re_search ic p t\<close> stands for \<open>re.search(p, t, re.IGNORECASE)\<close> finding a match when
  \<open>ic\<close> holds, and for \<open>re.search(p, t)\<close> finding one otherwise.
\<close>

record pylib =
  re_search :: "bool \<Rightarrow> pystr \<Rightarrow> pystr \<Rightarrow> bool"
  str_lower :: "pystr \<Rightarrow> pystr"
  enum_format :: "RoutingStrategy \<Rightarrow> pystr"

section \<open>Classifier (routing/classifier.py)\<close>

definition simple_patterns :: "pystr list" where
  "simple_patterns =
   [[1095, 1090, 1086, 32, 1090, 1072, 1082, 1086, 1077],
    [1082, 1090, 1086, 32, 1090, 1072, 1082, 1086, 1081],
    [1082, 1086, 1075, 1076, 1072],
    [1075, 1076, 1077, 32, 1085, 1072, 1093, 1086, 1076, 1080, 1090, 1089, 1103],
    [1082, 1072, 1082, 1072, 1103, 32, 1089, 1090, 1086, 1083, 1080, 1094, 1072],
    [1076, 1072, 1081, 32, 1086, 1087, 1088, 1077, 1076, 1077, 1083, 1077, 1085, 1080, 1077],
    [1085, 1072, 1079, 1086, 1074, 1080],
    [1087, 1077, 1088, 1077, 1095, 1080, 1089, 1083, 1080]]"

definition complex_patterns :: "pystr list" where
  "complex_patterns =
   [[1087, 1088, 1086, 1072, 1085, 1072, 1083, 1080, 1079, 1080, 1088, 1091, 1081],
    [1089, 1088, 1072, 1074, 1085, 1080],
    [1086, 1094, 1077, 1085, 1080, 32, 1074, 1083, 1080, 1103, 1085, 1080, 1077],
    [1085, 1072, 1081, 1076, 1080, 32, 1074, 1089, 1077],
    [1080, 1089, 1089, 1083, 1077, 1076, 1091, 1081],
    [1086, 1087, 1088, 1077, 1076, 1077, 1083, 1080, 32, 1074, 1079, 1072, 1080, 1084, 1086,
     1089, 1074, 1103, 1079, 1100],
    [1089, 1076, 1077, 1083, 1072, 1081, 32, 1087, 1088, 1086, 1075, 1085, 1086, 1079],
    [1088, 1072, 1079, 1088, 1072, 1073, 1086, 1090, 1072, 1081, 32, 1089, 1090, 1088, 1072,
     1090, 1077, 1075, 1080, 1102]]"

definition multi_hop_keywords :: "pystr list" where
  "multi_hop_keywords =
   [[1080],
    [1072, 32, 1090, 1072, 1082, 1078, 1077],
    [1082, 1088, 1086, 1084, 1077, 32, 1090, 1086, 1075, 1086],
    [1091, 1095, 1080, 1090, 1099, 1074, 1072, 1103],
    [1085, 1072, 32, 1086, 1089, 1085, 1086, 1074, 1077],
    [1080, 1089, 1093, 1086, 1076, 1103, 32, 1080, 1079],
    [1074, 32, 1082, 1086, 1085, 1090, 1077, 1082, 1089, 1090, 1077]]"

text \<open>The pattern \<open>\d+\.\<close> of the enumeration test.\<close>

definition enumeration_pattern :: pystr where
  "enumeration_pattern = [92, 100, 43, 92, 46]"

text \<open>The values of the \<open>features\<close> dictionary of a classification.\<close>

datatype feature = FStr pystr | FInt int | FBool bool

text \<open>
  The dictionary a classification returns, with its three keys as fields (\<open>cls_\<close> keeps
  them apart from the fields of the records above).
\<close>

record classification =
  cls_complexity :: QueryComplexity
  cls_confidence :: real
  cls_features :: "(string \<times> feature) list"

text \<open>
  \<open>for pattern in patterns: if re.search(pattern, query, re.IGNORECASE): return ...\<close>:
  the first pattern of the list that matches, if any.
\<close>

fun first_match :: "pylib \<Rightarrow> pystr list \<Rightarrow> pystr \<Rightarrow> pystr option" where
  "first_match lib [] q = None"
| "first_match lib (p # ps) q = (if re_search lib True p q then Some p else first_match lib ps q)"

text \<open>\<open>sum(1 for keyword in self.multi_hop_keywords if keyword in query)\<close>\<close>

fun multi_hop_count :: "pystr list \<Rightarrow> pystr \<Rightarrow> int" where
  "multi_hop_count [] q = 0"
| "multi_hop_count (k # ks) q = (if str_contains k q then 1 else 0) + multi_hop_count ks q"

definition heuristic_classify :: "pylib \<Rightarrow> pystr \<Rightarrow> classification" where
  "heuristic_classify lib q =
    (case first_match lib simple_patterns q of
       Some p \<Rightarrow>
         \<lparr>cls_complexity = SIMPLE, cls_confidence = 0.85,
          cls_features = [(''pattern_match'', FStr p),
                          (''query_length'', FInt (int (length q))),
                          (''word_count'', FInt (int (length (split q))))]\<rparr>
     | None \<Rightarrow>
        (case first_match lib complex_patterns q of
           Some p \<Rightarrow>
             (let mh = multi_hop_count multi_hop_keywords q;
                  c = (if mh \<ge> 2 then MULTI_HOP else COMPLEX)
              in \<lparr>cls_complexity = c, cls_confidence = 0.75,
                  cls_features = [(''pattern_match'', FStr p),
                                  (''multi_hop_indicators'', FInt mh),
                                  (''query_length'', FInt (int (length q))),
                                  (''word_count'', FInt (int (length (split q))))]\<rparr>)
         | None \<Rightarrow>
             (let word_count = int (length (split q));
                  question_marks = int (count_list q 63);
                  has_enumeration = re_search lib False enumeration_pattern q;
                  (c0, f0) = (if word_count < 10 then (SIMPLE, 0.7)
                              else if word_count < 30 then (MODERATE, 0.6)
                              else if word_count < 50 then (COMPLEX, 0.6)
                              else (MULTI_HOP, 0.7));
                  (c1, f1) = (if question_marks > 1 then (MULTI_HOP, f0 * 0.9) else (c0, f0));
                  (c2, f2) = (if has_enumeration
                              then (if c1 = SIMPLE then MODERATE else c1, f1 * 0.95)
                              else (c1, f1))
              in \<lparr>cls_complexity = c2, cls_confidence = f2,
                  cls_features = [(''word_count'', FInt word_count),
                                  (''question_marks'', FInt question_marks),
                                  (''has_enumeration'', FBool has_enumeration),
                                  (''query_length'', FInt (int (length q)))]\<rparr>)))"

text \<open>
  \<open>classify\<close>: no model is loaded (\<open>self.model = None\<close> is never reassigned), so the
  lower-cased query goes to the heuristics.
\<close>

definition classify :: "pylib \<Rightarrow> QueryMetadata \<Rightarrow> classification" where
  "classify lib md = heuristic_classify lib (str_lower lib (original_query md))"

section \<open>Router (routing/router.py)\<close>

definition determine_strategy :: "QueryComplexity \<Rightarrow> real \<Rightarrow> RoutingStrategy" where
  "determine_strategy c conf =
    (if c = SIMPLE then CLASSIC_RAG
     else if c = COMPLEX \<or> c = MULTI_HOP then AGENTIC_RAG
     else if c = MODERATE then (if conf > 0.7 then CLASSIC_RAG else HYBRID)
     else HYBRID)"

definition get_fallback_strategies :: "RoutingStrategy \<Rightarrow> RoutingStrategy list" where
  "get_fallback_strategies primary_strategy =
    (if primary_strategy = AGENTIC_RAG then [HYBRID, CLASSIC_RAG]
     else if primary_strategy = HYBRID then [CLASSIC_RAG, AGENTIC_RAG]
     else if primary_strategy = CLASSIC_RAG then [HYBRID, AGENTIC_RAG]
     else [CLASSIC_RAG])"

fun base_time :: "RoutingStrategy \<Rightarrow> real" where
  "base_time CLASSIC_RAG = 200"
| "base_time AGENTIC_RAG = 2000"
| "base_time HYBRID = 1500"
| "base_time CACHE = 10"

fun complexity_multiplier :: "QueryComplexity \<Rightarrow> real" where
  "complexity_multiplier SIMPLE = 0.5"
| "complexity_multiplier MODERATE = 1.0"
| "complexity_multiplier COMPLEX = 2.0"
| "complexity_multiplier MULTI_HOP = 3.0"

text \<open>\<open>int(base_time * multiplier)\<close>: the product is never negative, so \<open>int\<close> is the floor.\<close>

definition estimate_time :: "RoutingStrategy \<Rightarrow> QueryMetadata \<Rightarrow> int" where
  "estimate_time s md = \<lfloor>base_time s * complexity_multiplier (complexity md)\<rfloor>"

fun base_cost :: "RoutingStrategy \<Rightarrow> real" where
  "base_cost CLASSIC_RAG = 0.001"
| "base_cost AGENTIC_RAG = 0.01"
| "base_cost HYBRID = 0.005"
| "base_cost CACHE = 0.0"

definition estimate_cost :: "RoutingStrategy \<Rightarrow> QueryMetadata \<Rightarrow> real" where
  "estimate_cost s md = base_cost s * (1.0 + real (length (original_query md)) / 1000.0)"

text \<open>The hook is a stub in the source: it returns the strategy it is given.\<close>

definition check_resource_availability :: "RoutingStrategy \<Rightarrow> RoutingStrategy" where
  "check_resource_availability s = s"

text \<open>
  \<open>template.format(complexity=..., strategy=...)\<close>: only the classic template has a
  placeholder, \<open>{complexity}\<close>.
\<close>

fun generate_reasoning :: "RoutingStrategy \<Rightarrow> QueryMetadata \<Rightarrow> pystr" where
  "generate_reasoning CLASSIC_RAG md =
     [1047, 1072, 1087, 1088, 1086, 1089, 32, 1082, 1083, 1072, 1089, 1089, 1080, 1092, 1080,
      1094, 1080, 1088, 1086, 1074, 1072, 1085, 32, 1082, 1072, 1082, 32]
     @ complexity_value (complexity md)
     @ [32, 1089, 1083, 1086, 1078, 1085, 1086, 1089, 1090, 1080, 46, 32, 1048, 1089, 1087,
        1086, 1083, 1100, 1079, 1086, 1074, 1072, 1085, 1080, 1077, 32, 67, 108, 97, 115, 115,
        105, 99, 32, 82, 65, 71, 32, 1076, 1083, 1103, 32, 1073, 1099, 1089, 1090, 1088, 1086,
        1075, 1086, 32, 1087, 1086, 1080, 1089, 1082, 1072, 32, 1086, 1090, 1074, 1077, 1090,
        1072, 46]"
| "generate_reasoning AGENTIC_RAG md =
     [1047, 1072, 1087, 1088, 1086, 1089, 32, 1090, 1088, 1077, 1073, 1091, 1077, 1090, 32,
      1089, 1083, 1086, 1078, 1085, 1086, 1075, 1086, 32, 1072, 1085, 1072, 1083, 1080, 1079,
      1072, 32, 1080, 32, 1084, 1085, 1086, 1075, 1086, 1101, 1090, 1072, 1087, 1085, 1086,
      1081, 32, 1086, 1073, 1088, 1072, 1073, 1086, 1090, 1082, 1080, 46, 32, 1048, 1089, 1087,
      1086, 1083, 1100, 1079, 1086, 1074, 1072, 1085, 1080, 1077, 32, 65, 103, 101, 110, 116,
      105, 99, 32, 82, 65, 71, 32, 1076, 1083, 1103, 32, 1075, 1083, 1091, 1073, 1086, 1082,
      1086, 1075, 1086, 32, 1080, 1089, 1089, 1083, 1077, 1076, 1086, 1074, 1072, 1085, 1080,
      1103, 46]"
| "generate_reasoning HYBRID md =
     [1047, 1072, 1087, 1088, 1086, 1089, 32, 1089, 1088, 1077, 1076, 1085, 1077, 1081, 32,
      1089, 1083, 1086, 1078, 1085, 1086, 1089, 1090, 1080, 32, 1090, 1088, 1077, 1073, 1091,
      1077, 1090, 32, 1089, 1073, 1072, 1083, 1072, 1085, 1089, 1080, 1088, 1086, 1074, 1072,
      1085, 1085, 1086, 1075, 1086, 32, 1087, 1086, 1076, 1093, 1086, 1076, 1072, 46, 32, 1048,
      1089, 1087, 1086, 1083, 1100, 1079, 1086, 1074, 1072, 1085, 1080, 1077, 32, 1075, 1080,
      1073, 1088, 1080, 1076, 1085, 1086, 1081, 32, 1089, 1090, 1088, 1072, 1090, 1077, 1075,
      1080, 1080, 32, 1076, 1083, 1103, 32, 1086, 1087, 1090, 1080, 1084, 1072, 1083, 1100,
      1085, 1086, 1075, 1086, 32, 1088, 1077, 1079, 1091, 1083, 1100, 1090, 1072, 1090, 1072,
      46]"
| "generate_reasoning CACHE md =
     [1053, 1072, 1081, 1076, 1077, 1085, 32, 1087, 1086, 1093, 1086, 1078, 1080, 1081, 32,
      1079, 1072, 1087, 1088, 1086, 1089, 32, 1074, 32, 1082, 1101, 1096, 1077, 46, 32, 1048,
      1089, 1087, 1086, 1083, 1100, 1079, 1086, 1074, 1072, 1085, 1080, 1077, 32, 1079, 1072,
      1082, 1101, 1096, 1080, 1088, 1086, 1074, 1072, 1085, 1085, 1086, 1075, 1086, 32, 1088,
      1077, 1079, 1091, 1083, 1100, 1090, 1072, 1090, 1072, 32, 1076, 1083, 1103, 32, 1084,
      1075, 1085, 1086, 1074, 1077, 1085, 1085, 1086, 1075, 1086, 32, 1086, 1090, 1074, 1077,
      1090, 1072, 46]"

text \<open>
  \<open>route\<close>. The strategy comes from the complexity recorded in the metadata and from the
  classifier's confidence; the fallbacks and the estimates are computed from the strategy
  before the resource hook is applied.
\<close>

definition route :: "pylib \<Rightarrow> QueryMetadata \<Rightarrow> RoutingDecision" where
  "route lib md =
    (let classification = classify lib md;
         strategy0 = determine_strategy (complexity md) (cls_confidence classification);
         fallbacks = get_fallback_strategies strategy0;
         estimated_time = estimate_time strategy0 md;
         estimated_cost = estimate_cost strategy0 md;
         strategy1 = check_resource_availability strategy0
     in \<lparr>strategy = strategy1,
         confidence = cls_confidence classification,
         reasoning = generate_reasoning strategy1 md,
         fallback_strategies = fallbacks,
         estimated_time_ms = estimated_time,
         estimated_cost_usd = estimated_cost,
         cache_hit = False\<rparr>)"

section \<open>Results, exceptions and collaborators\<close>

text \<open>
  Documents and agent results are produced by the pipelines and only passed through by
  the code under study, so they stay opaque.
\<close>

typedecl Document
typedecl AgentResult

datatype AgentType = RESEARCH | ANALYSIS | SYNTHESIS | VERIFICATION | CODE

text \<open>\<open>QueryResult\<close> (without its \<open>timestamp\<close>); \<open>error\<close> is \<open>None\<close> unless a message was set.\<close>

record QueryResult =
  query_id :: pystr
  answer :: pystr
  strategy_used :: RoutingStrategy
  confidence_score :: real
  relevance_score :: real
  latency_ms :: int
  tokens_used :: int
  cost_usd :: real
  documents_retrieved :: "Document list"
  agents_used :: "AgentType list"
  agent_results :: "AgentResult list"
  execution_path :: "pystr list"
  reasoning_chain :: "pystr list"
  metadata :: QueryMetadata
  cached :: bool
  fallback_used :: bool
  error :: "pystr option"

text \<open>
  The exceptions that reach the \<open>except Exception\<close> of \<open>query\<close>: the \<open>KeyError\<close> of
  \<open>result["answer"]\<close>, the \<open>ValueError\<close> of \<open>_execute_query\<close>, and whatever a pipeline
  raises (\<open>Raised\<close>, with its message). \<open>exn_str\<close> is \<open>str(e)\<close>.
\<close>

datatype exn = KeyError pystr | ValueError pystr | Raised pystr

fun exn_str :: "exn \<Rightarrow> pystr" where
  "exn_str (KeyError k) = [39] @ k @ [39]"
| "exn_str (ValueError m) = m"
| "exn_str (Raised m) = m"

text \<open>
  The dictionary a pipeline returns. \<open>"answer"\<close> is read with \<open>result["answer"]\<close>, every
  other key with \<open>result.get(key, default)\<close>, so each key may be absent.
\<close>

record pipe_dict =
  d_answer :: "pystr option"
  d_confidence :: "real option"
  d_relevance :: "real option"
  d_tokens_used :: "int option"
  d_cost :: "real option"
  d_documents :: "Document list option"
  d_agents_used :: "AgentType list option"
  d_agent_results :: "AgentResult list option"
  d_execution_path :: "pystr list option"
  d_reasoning_chain :: "pystr list option"

text \<open>\<open>d.get(key, default)\<close>\<close>

definition get_or :: "'a option \<Rightarrow> 'a \<Rightarrow> 'a" where
  "get_or v dflt = (case v of None \<Rightarrow> dflt | Some x \<Rightarrow> x)"

text \<open>The thresholds of \<open>Settings\<close> (core/config.py, block "routing strategies").\<close>

record Settings =
  complexity_threshold_simple :: real
  complexity_threshold_complex :: real
  max_iterations_agentic :: int
  timeout_seconds :: int

definition default_settings :: Settings where
  "default_settings =
    \<lparr>complexity_threshold_simple = 0.3, complexity_threshold_complex = 0.7,
     max_iterations_agentic = 5, timeout_seconds = 30\<rparr>"

text \<open>The calls made to the collaborators, in order: what a request attempted.\<close>

datatype event = CacheGet pystr | CacheSet pystr | ClassicProcess | Orchestrate | MetricsRecord

text \<open>The keyword arguments of one \<open>metrics.record\<close> call, in the order of the source.\<close>

type_synonym metric = "pystr \<times> int \<times> int \<times> real \<times> real \<times> real \<times> bool \<times> bool"

text \<open>
  The \<open>HybridRAG\<close> object. The two pipelines (\<open>ClassicRAGPipeline.process\<close>,
  \<open>AgentOrchestrator.orchestrate\<close>) are not part of the code under study: they are
  parameters, returning a dictionary or raising.

  Modelled from the spec: \<open>MultiLevelCache\<close> (caching/multi_level.py is absent) is reduced
  to its exact-match tier, a store from the query text to the saved result dictionary,
  which \<open>QueryResult(**cached)\<close> turns back into a result; \<open>get\<close> hits exactly on a stored
  key. Expiry, eviction and the similarity tier are not modelled, and the cache and
  metrics objects are taken to be truthy and not to raise. \<open>cache\<close> and \<open>metrics\<close> are
  \<open>None\<close> as in the source when the object is built with the feature disabled.

  \<open>calls\<close> is not an attribute of the source: it logs the calls to the collaborators.
\<close>

record HybridRAG =
  settings :: Settings
  language :: pystr
  cache_enabled :: bool
  monitoring_enabled :: bool
  use_classic_for_simple :: bool
  use_agentic_for_complex :: bool
  classic_rag :: "QueryMetadata \<Rightarrow> exn + pipe_dict"
  agent_orchestrator :: "QueryMetadata \<Rightarrow> exn + pipe_dict"
  cache :: "(pystr \<rightharpoonup> QueryResult) option"
  metrics :: "metric list option"
  calls :: "event list"

text \<open>
  What the clock and the scheduler contribute to one request: the elapsed times measured
  by the two pipelines and by \<open>query\<close>, and which of two failing concurrent tasks raises
  first (\<open>asyncio.gather\<close> propagates the first exception raised).
\<close>

record timing =
  classic_ms :: int
  agentic_ms :: int
  total_ms :: int
  agentic_raises_first :: bool

section \<open>HybridRAG (core/hybrid_rag.py)\<close>

text \<open>\<open>__init__\<close> with \<open>_initialize_components\<close>: the cache and the metrics exist iff enabled.\<close>

definition init :: "Settings \<Rightarrow> pystr \<Rightarrow> bool \<Rightarrow> bool \<Rightarrow> bool \<Rightarrow> bool
    \<Rightarrow> (QueryMetadata \<Rightarrow> exn + pipe_dict) \<Rightarrow> (QueryMetadata \<Rightarrow> exn + pipe_dict) \<Rightarrow> HybridRAG" where
  "init st lang ce me ucs uac classic agentic =
    \<lparr>settings = st, HybridRAG.language = lang, cache_enabled = ce, monitoring_enabled = me,
     use_classic_for_simple = ucs, use_agentic_for_complex = uac,
     classic_rag = classic, agent_orchestrator = agentic,
     cache = (if ce then Some Map.empty else None),
     metrics = (if me then Some [] else None),
     calls = []\<rparr>"

text \<open>
  \<open>_analyze_query\<close>: the score is the number of words over 50, capped at 1, and the
  complexity is read off the fixed cut-offs 0.3, 0.6 and 0.8.
\<close>

definition analyze_query :: "HybridRAG \<Rightarrow> pystr \<Rightarrow> pystr \<Rightarrow> pystr option \<Rightarrow> pystr option \<Rightarrow> QueryMetadata" where
  "analyze_query self q qid uid sid =
    (let score0 = real (length (split q)) / 50.0;
         score = min 1.0 score0;
         c = (if score < 0.3 then SIMPLE
              else if score < 0.6 then MODERATE
              else if score < 0.8 then COMPLEX
              else MULTI_HOP)
     in \<lparr>QueryMetadata.query_id = qid, original_query = q,
         QueryMetadata.language = HybridRAG.language self,
         complexity = c, complexity_score = score, entities = [],
         intent = str ''general'', key_words = [], embedding = None,
         user_id = uid, session_id = sid\<rparr>)"

definition check_cache :: "HybridRAG \<Rightarrow> QueryMetadata \<Rightarrow> QueryResult option \<times> HybridRAG" where
  "check_cache self md =
    (case cache self of
       None \<Rightarrow> (None, self)
     | Some store \<Rightarrow>
        (let self1 = self\<lparr>calls := calls self @ [CacheGet (original_query md)]\<rparr>
         in case store (original_query md) of
              Some stored \<Rightarrow> (Some (stored\<lparr>cached := True\<rparr>), self1)
            | None \<Rightarrow> (None, self1)))"

definition route_query :: "pylib \<Rightarrow> HybridRAG \<Rightarrow> QueryMetadata \<Rightarrow> RoutingStrategy option \<Rightarrow> RoutingDecision" where
  "route_query lib self md force_strategy =
    (case force_strategy of
       Some forced \<Rightarrow>
         \<lparr>strategy = forced, confidence = 1.0,
          reasoning = [1055, 1088, 1080, 1085, 1091, 1076, 1080, 1090, 1077, 1083, 1100, 1085,
                       1072, 1103, 32, 1089, 1090, 1088, 1072, 1090, 1077, 1075, 1080, 1103],
          fallback_strategies = [], estimated_time_ms = 1000, estimated_cost_usd = 0.001,
          cache_hit = False\<rparr>
     | None \<Rightarrow> route lib md)"

definition execute_classic_rag :: "timing \<Rightarrow> HybridRAG \<Rightarrow> QueryMetadata \<Rightarrow> (exn + QueryResult) \<times> HybridRAG" where
  "execute_classic_rag tm self md =
    (let self1 = self\<lparr>calls := calls self @ [ClassicProcess]\<rparr>
     in case classic_rag self md of
          Inl e \<Rightarrow> (Inl e, self1)
        | Inr d \<Rightarrow>
           (case d_answer d of
              None \<Rightarrow> (Inl (KeyError (str ''answer'')), self1)
            | Some a \<Rightarrow>
               (Inr \<lparr>query_id = QueryMetadata.query_id md, answer = a,
                     strategy_used = CLASSIC_RAG,
                     confidence_score = get_or (d_confidence d) 0.8,
                     relevance_score = get_or (d_relevance d) 0.8,
                     latency_ms = classic_ms tm,
                     tokens_used = get_or (d_tokens_used d) 0,
                     cost_usd = get_or (d_cost d) 0.001,
                     documents_retrieved = get_or (d_documents d) [],
                     agents_used = [], agent_results = [],
                     execution_path = [str ''classic_rag''], reasoning_chain = [],
                     metadata = md, cached = False, fallback_used = False,
                     error = None\<rparr>, self1)))"

definition execute_agentic_rag :: "timing \<Rightarrow> HybridRAG \<Rightarrow> QueryMetadata \<Rightarrow> (exn + QueryResult) \<times> HybridRAG" where
  "execute_agentic_rag tm self md =
    (let self1 = self\<lparr>calls := calls self @ [Orchestrate]\<rparr>
     in case agent_orchestrator self md of
          Inl e \<Rightarrow> (Inl e, self1)
        | Inr d \<Rightarrow>
           (case d_answer d of
              None \<Rightarrow> (Inl (KeyError (str ''answer'')), self1)
            | Some a \<Rightarrow>
               (Inr \<lparr>query_id = QueryMetadata.query_id md, answer = a,
                     strategy_used = AGENTIC_RAG,
                     confidence_score = get_or (d_confidence d) 0.9,
                     relevance_score = get_or (d_relevance d) 0.9,
                     latency_ms = agentic_ms tm,
                     tokens_used = get_or (d_tokens_used d) 0,
                     cost_usd = get_or (d_cost d) 0.01,
                     documents_retrieved = get_or (d_documents d) [],
                     agents_used = get_or (d_agents_used d) [],
                     agent_results = get_or (d_agent_results d) [],
                     execution_path = get_or (d_execution_path d) [],
                     reasoning_chain = get_or (d_reasoning_chain d) [],
                     metadata = md, cached = False, fallback_used = False,
                     error = None\<rparr>, self1)))"

text \<open>
  \<open>_execute_hybrid\<close>: both tasks are created and run; \<open>asyncio.gather\<close> is called
  without \<open>return_exceptions\<close>, so it returns the two results only when both tasks
  succeed and otherwise raises the first exception raised by a task.
\<close>

definition execute_hybrid :: "timing \<Rightarrow> HybridRAG \<Rightarrow> QueryMetadata \<Rightarrow> (exn + QueryResult) \<times> HybridRAG" where
  "execute_hybrid tm self md =
    (let (classic_out, self1) = execute_classic_rag tm self md;
         (agentic_out, self2) = execute_agentic_rag tm self1 md
     in case (classic_out, agentic_out) of
          (Inr classic_result, Inr agentic_result) \<Rightarrow>
            (let final_result =
                   (if confidence_score agentic_result > confidence_score classic_result
                    then agentic_result else classic_result)
             in (Inr (final_result\<lparr>strategy_used := HYBRID\<rparr>), self2))
        | (Inl ec, Inr agentic_result) \<Rightarrow> (Inl ec, self2)
        | (Inr classic_result, Inl ea) \<Rightarrow> (Inl ea, self2)
        | (Inl ec, Inl ea) \<Rightarrow> (Inl (if agentic_raises_first tm then ea else ec), self2))"

definition execute_query :: "pylib \<Rightarrow> timing \<Rightarrow> HybridRAG \<Rightarrow> QueryMetadata \<Rightarrow> RoutingDecision
    \<Rightarrow> (exn + QueryResult) \<times> HybridRAG" where
  "execute_query lib tm self md decision =
    (let s = strategy decision
     in if s = CLASSIC_RAG then execute_classic_rag tm self md
        else if s = AGENTIC_RAG then execute_agentic_rag tm self md
        else if s = HYBRID then execute_hybrid tm self md
        else (Inl (ValueError ([1053, 1077, 1080, 1079, 1074, 1077, 1089, 1090, 1085, 1072, 1103,
                                 32, 1089, 1090, 1088, 1072, 1090, 1077, 1075, 1080, 1103, 58, 32]
                                @ enum_format lib s)), self))"

definition save_to_cache :: "HybridRAG \<Rightarrow> QueryMetadata \<Rightarrow> QueryResult \<Rightarrow> HybridRAG" where
  "save_to_cache self md result =
    (case cache self of
       None \<Rightarrow> self
     | Some store \<Rightarrow>
         self\<lparr>cache := Some (store(original_query md \<mapsto> result)),
              calls := calls self @ [CacheSet (original_query md)]\<rparr>)"

definition collect_metrics :: "HybridRAG \<Rightarrow> QueryResult \<Rightarrow> HybridRAG" where
  "collect_metrics self result =
    (case metrics self of
       None \<Rightarrow> self
     | Some recorded \<Rightarrow>
         self\<lparr>metrics := Some (recorded @ [(strategy_value (strategy_used result), latency_ms result,
                   tokens_used result, cost_usd result, confidence_score result,
                   relevance_score result, cached result, fallback_used result)]),
              calls := calls self @ [MetricsRecord]\<rparr>)"

definition create_error_result :: "pystr \<Rightarrow> QueryMetadata option \<Rightarrow> pystr \<Rightarrow> int \<Rightarrow> QueryResult" where
  "create_error_result qid query_metadata err latency =
    \<lparr>query_id = qid,
     answer = [1048, 1079, 1074, 1080, 1085, 1080, 1090, 1077, 44, 32, 1087, 1088, 1086, 1080,
               1079, 1086, 1096, 1083, 1072, 32, 1086, 1096, 1080, 1073, 1082, 1072, 32, 1087,
               1088, 1080, 32, 1086, 1073, 1088, 1072, 1073, 1086, 1090, 1082, 1077, 32, 1074,
               1072, 1096, 1077, 1075, 1086, 32, 1079, 1072, 1087, 1088, 1086, 1089, 1072, 46],
     strategy_used = CLASSIC_RAG, confidence_score = 0.0, relevance_score = 0.0,
     latency_ms = latency, tokens_used = 0, cost_usd = 0.0,
     documents_retrieved = [], agents_used = [], agent_results = [],
     execution_path = [str ''error''], reasoning_chain = [],
     metadata = (case query_metadata of
                   Some md \<Rightarrow> md
                 | None \<Rightarrow> \<lparr>QueryMetadata.query_id = qid, original_query = [],
                              QueryMetadata.language = str ''ru'', complexity = SIMPLE,
                              complexity_score = 0.0, entities = [], intent = str ''error'',
                              key_words = [], embedding = None, user_id = None,
                              session_id = None\<rparr>),
     cached = False, fallback_used = True, error = Some err\<rparr>"

text \<open>
  \<open>query\<close>. \<open>qid\<close> is the fresh UUID. Every member of \<open>RoutingStrategy\<close> is a non-empty
  string, hence truthy, so \<open>not force_strategy\<close> holds exactly when no strategy is forced.
  Whatever the \<open>try\<close> block raises is turned into an error result; the cache is written
  before \<open>latency_ms\<close> is overwritten, so the stored copy keeps the pipeline's own latency.
  The \<open>metadata\<close> argument of the source is never read and is left out.
\<close>

definition query :: "pylib \<Rightarrow> timing \<Rightarrow> pystr \<Rightarrow> HybridRAG \<Rightarrow> pystr \<Rightarrow> pystr option \<Rightarrow> pystr option
    \<Rightarrow> RoutingStrategy option \<Rightarrow> QueryResult \<times> HybridRAG" where
  "query lib tm qid self q uid sid force_strategy =
    (let md = analyze_query self q qid uid sid;
         (hit, self1) = (if cache_enabled self \<and> force_strategy = None
                         then check_cache self md else (None, self))
     in case hit of
          Some cached_result \<Rightarrow> (cached_result, self1)
        | None \<Rightarrow>
           (let decision = route_query lib self1 md force_strategy
            in case execute_query lib tm self1 md decision of
                 (Inl e, self2) \<Rightarrow>
                    (create_error_result qid (Some md) (exn_str e) (total_ms tm), self2)
               | (Inr result, self2) \<Rightarrow>
                   (let self3 = (if cache_enabled self2 then save_to_cache self2 md result
                                 else self2);
                        self4 = (if monitoring_enabled self3 then collect_metrics self3 result
                                 else self3)
                    in (result\<lparr>latency_ms := total_ms tm\<rparr>, self4))))"

definition complex_query :: "pylib \<Rightarrow> timing \<Rightarrow> pystr \<Rightarrow> HybridRAG \<Rightarrow> pystr \<Rightarrow> QueryResult \<times> HybridRAG" where
  "complex_query lib tm qid self q = query lib tm qid self q None None (Some AGENTIC_RAG)"

definition simple_query :: "pylib \<Rightarrow> timing \<Rightarrow> pystr \<Rightarrow> HybridRAG \<Rightarrow> pystr \<Rightarrow> QueryResult \<times> HybridRAG" where
  "simple_query lib tm qid self q = query lib tm qid self q None None (Some CLASSIC_RAG)"

section \<open>Notions used to state the properties\<close>

text \<open>
  The entry an unforced request finds in the cache: the condition of \<open>query\<close> followed by
  the lookup of \<open>_check_cache\<close>.
\<close>

definition cache_lookup :: "HybridRAG \<Rightarrow> pystr \<Rightarrow> QueryResult option" where
  "cache_lookup self q =
    (if cache_enabled self then (case cache self of None \<Rightarrow> None | Some store \<Rightarrow> store q)
     else None)"

text \<open>The calls to collaborators made between two states of the object.\<close>

definition request_calls :: "HybridRAG \<Rightarrow> HybridRAG \<Rightarrow> event list" where
  "request_calls before after = drop (length (calls before)) (calls after)"

text \<open>The pipeline calls that executing a strategy makes.\<close>

fun pipeline_events :: "RoutingStrategy \<Rightarrow> event list" where
  "pipeline_events CLASSIC_RAG = [ClassicProcess]"
| "pipeline_events AGENTIC_RAG = [Orchestrate]"
| "pipeline_events HYBRID = [ClassicProcess, Orchestrate]"
| "pipeline_events CACHE = []"

text \<open>
  The calls an unforced request makes for its cache lookup, and the calls a request makes
  after a successful execution (cache write, then metrics).
\<close>

definition lookup_events :: "HybridRAG \<Rightarrow> pystr \<Rightarrow> RoutingStrategy option \<Rightarrow> event list" where
  "lookup_events self q force =
     (if force = None \<and> cache_enabled self \<and> cache self \<noteq> None then [CacheGet q] else [])"

definition store_events :: "HybridRAG \<Rightarrow> pystr \<Rightarrow> event list" where
  "store_events self q =
     (if cache_enabled self \<and> cache self \<noteq> None then [CacheSet q] else [])
     @ (if monitoring_enabled self \<and> metrics self \<noteq> None then [MetricsRecord] else [])"

text \<open>No entry of the cache was stored with the strategy \<open>cache\<close>.\<close>

definition cache_clean :: "HybridRAG \<Rightarrow> bool" where
  "cache_clean self =
     (\<forall>store q stored. cache self = Some store \<and> store q = Some stored
        \<longrightarrow> strategy_used stored \<noteq> CACHE)"

fun is_cache_get :: "event \<Rightarrow> bool" where
  "is_cache_get (CacheGet k) = True"
| "is_cache_get e = False"

fun is_pipeline_call :: "event \<Rightarrow> bool" where
  "is_pipeline_call ClassicProcess = True"
| "is_pipeline_call Orchestrate = True"
| "is_pipeline_call e = False"


subsection \<open>The reference definition of heuristic classification\<close>

text \<open>
  The classification as the specification words it: a table on the word count, then the
  two adjustments, each described by what it does to the class and by the factor it
  applies to the confidence.
\<close>

definition word_count_class :: "nat \<Rightarrow> QueryComplexity \<times> real" where
  "word_count_class n =
    (if n < 10 then (SIMPLE, 0.7) else if n < 30 then (MODERATE, 0.6)
     else if n < 50 then (COMPLEX, 0.6) else (MULTI_HOP, 0.7))"

definition heuristic_reference :: "pylib \<Rightarrow> pystr \<Rightarrow> QueryComplexity \<times> real" where
  "heuristic_reference lib q =
    (if \<exists>p \<in> set simple_patterns. re_search lib True p q then (SIMPLE, 0.85)
     else if \<exists>p \<in> set complex_patterns. re_search lib True p q then
       (if 2 \<le> card {k \<in> set multi_hop_keywords. str_contains k q}
        then (MULTI_HOP, 0.75) else (COMPLEX, 0.75))
     else
       (let many_questions = (1 < count_list q 63);
            enumerated = re_search lib False enumeration_pattern q;
            base = word_count_class (length (split q))
        in (if many_questions then MULTI_HOP
            else if enumerated \<and> fst base = SIMPLE then MODERATE
            else fst base,
            snd base * (if many_questions then 0.9 else 1) * (if enumerated then 0.95 else 1))))"

subsection \<open>Concrete inputs\<close>

text \<open>
  A library instance for evaluating at concrete inputs: on ASCII and basic Russian text,
  a literal pattern is found case-insensitively as a substring, \<open>\d+\.\<close> is found where
  an ASCII digit is followed by a dot, and an enum member is formatted as its value.
\<close>

fun has_digit_dot :: "pystr \<Rightarrow> bool" where
  "has_digit_dot (a # b # cs) = ((48 \<le> a \<and> a \<le> 57 \<and> b = 46) \<or> has_digit_dot (b # cs))"
| "has_digit_dot cs = False"

definition basic_lower :: "nat \<Rightarrow> nat" where
  "basic_lower c = (if (65 \<le> c \<and> c \<le> 90) \<or> (1040 \<le> c \<and> c \<le> 1071) then c + 32
                    else if c = 1025 then 1105 else c)"

definition basic_lib :: pylib where
  "basic_lib =
    \<lparr>re_search = (\<lambda>ic p t. if ic then str_contains (map basic_lower p) (map basic_lower t)
                            else p = enumeration_pattern \<and> has_digit_dot t),
     str_lower = map basic_lower,
     enum_format = strategy_value\<rparr>"

text \<open>A pipeline dictionary holding an answer and a confidence, and the two kinds of pipeline.\<close>

definition answer_dict :: "pystr \<Rightarrow> real option \<Rightarrow> pipe_dict" where
  "answer_dict a c =
    \<lparr>d_answer = Some a, d_confidence = c, d_relevance = None, d_tokens_used = None,
     d_cost = None, d_documents = None, d_agents_used = None, d_agent_results = None,
     d_execution_path = None, d_reasoning_chain = None\<rparr>"

definition answering :: "pystr \<Rightarrow> real option \<Rightarrow> QueryMetadata \<Rightarrow> exn + pipe_dict" where
  "answering a c md = Inr (answer_dict a c)"

definition failing :: "pystr \<Rightarrow> QueryMetadata \<Rightarrow> exn + pipe_dict" where
  "failing m md = Inl (Raised m)"

definition tm0 :: timing where
  "tm0 = \<lparr>classic_ms = 5, agentic_ms = 50, total_ms = 60, agentic_raises_first = False\<rparr>"

text \<open>A system built by the constructor with its defaults, over the given pipelines.\<close>

definition rag :: "(QueryMetadata \<Rightarrow> exn + pipe_dict) \<Rightarrow> (QueryMetadata \<Rightarrow> exn + pipe_dict) \<Rightarrow> HybridRAG" where
  "rag classic agentic = init default_settings (str ''ru'') True True True True classic agentic"

text \<open>
  A definitional query (the first simple pattern followed by \<open>python?\<close>), the query
  \<open>1. a? b?\<close>, and queries of a given number of words.
\<close>

definition q_what_is :: pystr where
  "q_what_is = [1095, 1090, 1086, 32, 1090, 1072, 1082, 1086, 1077, 32, 112, 121, 116, 104, 111,
                110, 63]"

definition q_list :: pystr where
  "q_list = [49, 46, 32, 97, 63, 32, 98, 63]"



text \<open>The metadata of the first query, as analysed by a default system.\<close>

definition md0 :: QueryMetadata where
  "md0 = analyze_query (rag (failing []) (failing [])) q_what_is [49] None None"

text \<open>
  A system whose classic pipeline answers and whose agentic pipeline raises, and the same
  system after it has served the first query once.
\<close>

definition rag_demo :: HybridRAG where
  "rag_demo = rag (answering (str ''A'') None) (failing (str ''boom''))"

definition rag_warm :: HybridRAG where
  "rag_warm = snd (query basic_lib tm0 [49] rag_demo q_what_is None None None)"


section \<open>Properties of the classifier\<close>

lemma first_match_None: "first_match lib ps q = None \<longleftrightarrow> \<not> (\<exists>p \<in> set ps. re_search lib True p q)"
  by (induction ps) auto

lemma multi_hop_count_card:
  "distinct ks \<Longrightarrow> multi_hop_count ks q = int (card {k \<in> set ks. str_contains k q})"
proof (induction ks)
  case Nil
  then show ?case by simp
next
  case (Cons k ks)
  have fin: "finite {x \<in> set ks. str_contains x q}" by simp
  show ?case
  proof (cases "str_contains k q")
    case True
    then have "{x \<in> set (k # ks). str_contains x q} = insert k {x \<in> set ks. str_contains x q}"
      by auto
    moreover have "k \<notin> {x \<in> set ks. str_contains x q}" using Cons.prems by simp
    ultimately have "card {x \<in> set (k # ks). str_contains x q} = Suc (card {x \<in> set ks. str_contains x q})"
      using fin by simp
    with Cons True show ?thesis by simp
  next
    case False
    then have "{x \<in> set (k # ks). str_contains x q} = {x \<in> set ks. str_contains x q}"
      by auto
    with Cons False show ?thesis by simp
  qed
qed

lemma distinct_multi_hop_keywords: "distinct multi_hop_keywords"
  by (simp add: multi_hop_keywords_def)

text \<open>
  Claim C7. For every query string and every regular-expression engine, the class and
  the confidence computed by \<open>_heuristic_classify\<close> are those of the reference
  definition: a simple pattern wins over everything (0.85); otherwise a complex pattern
  gives \<open>multi_hop\<close> when at least two multi-hop keywords occur in the query and
  \<open>complex\<close> when fewer do (0.75); otherwise the word-count table applies, more than one
  question mark forces \<open>multi_hop\<close> with factor 0.9, and an enumeration promotes
  \<open>simple\<close> to \<open>moderate\<close> with factor 0.95.
\<close>

theorem C7_heuristic_classify_refines_reference:
  "(cls_complexity (heuristic_classify lib q), cls_confidence (heuristic_classify lib q))
     = heuristic_reference lib q"
proof (cases "first_match lib simple_patterns q")
  case (Some p)
  then have "\<exists>p \<in> set simple_patterns. re_search lib True p q"
    using first_match_None [of lib simple_patterns q] by simp
  with Some show ?thesis
    by (simp add: heuristic_classify_def heuristic_reference_def)
next
  case None
  then have ns: "\<not> (\<exists>p \<in> set simple_patterns. re_search lib True p q)"
    using first_match_None [of lib simple_patterns q] by simp
  show ?thesis
  proof (cases "first_match lib complex_patterns q")
    case (Some p)
    then have c: "\<exists>p \<in> set complex_patterns. re_search lib True p q"
      using first_match_None [of lib complex_patterns q] by simp
    have mh: "multi_hop_count multi_hop_keywords q
                = int (card {k \<in> set multi_hop_keywords. str_contains k q})"
      by (rule multi_hop_count_card [OF distinct_multi_hop_keywords])
    show ?thesis using None Some ns c
      by (simp add: heuristic_classify_def heuristic_reference_def mh Let_def)
  next
    case None2: None
    then have nc: "\<not> (\<exists>p \<in> set complex_patterns. re_search lib True p q)"
      using first_match_None [of lib complex_patterns q] by simp
    show ?thesis using None None2 ns nc
      by (simp add: heuristic_classify_def heuristic_reference_def Let_def word_count_class_def)
  qed
qed

text \<open>The two sides evaluated on a definitional query and on a short enumerated double question.\<close>

lemma heuristic_classify_what_is:
  "cls_complexity (heuristic_classify basic_lib q_what_is) = SIMPLE
   \<and> cls_confidence (heuristic_classify basic_lib q_what_is) = 0.85"
  by (simp add: heuristic_classify_def basic_lib_def simple_patterns_def q_what_is_def
        basic_lower_def)

lemma heuristic_classify_list:
  "cls_complexity (heuristic_classify basic_lib q_list) = MULTI_HOP
   \<and> cls_confidence (heuristic_classify basic_lib q_list) = 0.5985"
  by (simp add: heuristic_classify_def basic_lib_def simple_patterns_def complex_patterns_def
        q_list_def basic_lower_def enumeration_pattern_def split_def is_space_def)

theorem C7_heuristic_reference_witness:
  "heuristic_reference basic_lib q_what_is = (SIMPLE, 0.85)
   \<and> heuristic_reference basic_lib q_list = (MULTI_HOP, 0.5985)"
  using C7_heuristic_classify_refines_reference [of basic_lib q_what_is]
        C7_heuristic_classify_refines_reference [of basic_lib q_list]
        heuristic_classify_what_is heuristic_classify_list
  by simp

section \<open>Properties of the router\<close>

lemma route_strategy:
  "strategy (route lib md) = determine_strategy (complexity md) (cls_confidence (classify lib md))"
  by (simp add: route_def Let_def check_resource_availability_def)

lemma route_fallbacks:
  "fallback_strategies (route lib md) = get_fallback_strategies (strategy (route lib md))"
  by (simp add: route_def Let_def check_resource_availability_def)

lemma split_empty: "split [] = []"
  by (simp add: split_def)

lemma analyze_empty_simple: "complexity (analyze_query self [] qid uid sid) = SIMPLE"
  by (simp add: analyze_query_def split_empty Let_def)

text \<open>
  Claim C2. For every complexity and every classifier confidence the router selects:
  classic for \<open>simple\<close>; for \<open>moderate\<close>, classic when the confidence exceeds 0.7 and
  hybrid otherwise; agentic for \<open>complex\<close> and \<open>multi_hop\<close>. The decision of \<open>route\<close>
  carries exactly that strategy, computed from the complexity stored in the metadata and
  from the classifier's confidence. The empty query is analysed as \<open>simple\<close>, so it is
  routed to classic, whatever the classifier's confidence.
\<close>

theorem C2_strategy_selection:
  "determine_strategy SIMPLE conf = CLASSIC_RAG
   \<and> determine_strategy MODERATE conf = (if conf > 0.7 then CLASSIC_RAG else HYBRID)
   \<and> determine_strategy COMPLEX conf = AGENTIC_RAG
   \<and> determine_strategy MULTI_HOP conf = AGENTIC_RAG
   \<and> strategy (route lib md) = determine_strategy (complexity md) (cls_confidence (classify lib md))
   \<and> complexity (analyze_query self [] qid uid sid) = SIMPLE
   \<and> strategy (route lib (analyze_query self [] qid uid sid)) = CLASSIC_RAG"
  by (simp add: determine_strategy_def route_strategy analyze_empty_simple)

theorem C2_strategy_selection_witness:
  "determine_strategy MODERATE 0.9 = CLASSIC_RAG
   \<and> determine_strategy MODERATE 0.7 = HYBRID
   \<and> strategy (route basic_lib (analyze_query (rag (failing []) (failing [])) [] [49] None None))
       = CLASSIC_RAG"
  using C2_strategy_selection [where conf = "0.9" and lib = basic_lib
           and self = "rag (failing []) (failing [])" and qid = "[49]" and uid = None
           and sid = None]
        C2_strategy_selection [where conf = "0.7"]
  by simp

lemma determine_strategy_not_cache: "determine_strategy c conf \<noteq> CACHE"
  by (simp add: determine_strategy_def)

text \<open>
  Claim C4, amended. In every routing decision the fallback list does not contain the
  strategy. A decision made by the router (no forced strategy) never selects
  \<open>cache\<close>, and its fallback list is the fixed chain of its strategy, hence non-empty:
  agentic falls back to hybrid then classic, hybrid to classic then agentic, classic to
  hybrid then agentic. A decision made for a forced strategy carries that strategy and
  an empty fallback list.
\<close>

theorem C4_fallbacks_amended:
  "strategy (route_query lib self md force)
      \<notin> set (fallback_strategies (route_query lib self md force))
   \<and> (force = None \<longrightarrow>
        strategy (route_query lib self md force) \<noteq> CACHE
        \<and> fallback_strategies (route_query lib self md force) \<noteq> []
        \<and> fallback_strategies (route_query lib self md force)
            = get_fallback_strategies (strategy (route_query lib self md force)))
   \<and> (force \<noteq> None \<longrightarrow>
        force = Some (strategy (route_query lib self md force))
        \<and> fallback_strategies (route_query lib self md force) = [])
   \<and> get_fallback_strategies AGENTIC_RAG = [HYBRID, CLASSIC_RAG]
   \<and> get_fallback_strategies HYBRID = [CLASSIC_RAG, AGENTIC_RAG]
   \<and> get_fallback_strategies CLASSIC_RAG = [HYBRID, AGENTIC_RAG]"
proof (cases force)
  case None
  have "determine_strategy (complexity md) (cls_confidence (classify lib md)) \<noteq> CACHE"
    by (rule determine_strategy_not_cache)
  then show ?thesis using None
    by (cases "determine_strategy (complexity md) (cls_confidence (classify lib md))")
       (simp_all add: route_query_def route_strategy route_fallbacks get_fallback_strategies_def)
next
  case (Some forced)
  then show ?thesis
    by (simp add: route_query_def get_fallback_strategies_def)
qed

theorem C4_fallbacks_amended_witness:
  "fallback_strategies (route_query basic_lib (rag (failing []) (failing []))
       (analyze_query (rag (failing []) (failing [])) q_what_is [49] None None) None)
     = [HYBRID, AGENTIC_RAG]
   \<and> fallback_strategies (route_query basic_lib (rag (failing []) (failing []))
       (analyze_query (rag (failing []) (failing [])) q_what_is [49] None None) (Some AGENTIC_RAG))
     = []"
  using C4_fallbacks_amended [where lib = basic_lib and self = "rag (failing []) (failing [])"
          and md = "analyze_query (rag (failing []) (failing [])) q_what_is [49] None None"
          and force = None]
        C4_fallbacks_amended [where lib = basic_lib and self = "rag (failing []) (failing [])"
          and md = "analyze_query (rag (failing []) (failing [])) q_what_is [49] None None"
          and force = "Some AGENTIC_RAG"]
  by (simp add: route_query_def route_strategy determine_strategy_def analyze_query_def
        q_what_is_def split_def is_space_def)

text \<open>
  Claim C4 as stated fails: the decision for the forced strategy classic has an empty
  fallback list although its strategy is not \<open>cache\<close>.
\<close>

theorem C4_counterexample:
  "strategy (route_query basic_lib (rag (failing []) (failing []))
       (analyze_query (rag (failing []) (failing [])) q_what_is [49] None None) (Some CLASSIC_RAG))
     = CLASSIC_RAG
   \<and> fallback_strategies (route_query basic_lib (rag (failing []) (failing []))
       (analyze_query (rag (failing []) (failing [])) q_what_is [49] None None) (Some CLASSIC_RAG))
     = []"
  by (simp add: route_query_def)


section \<open>Properties of query analysis\<close>



lemma analyze_query_complexity:
  "complexity (analyze_query self q qid uid sid) =
     (let score = min 1 (real (length (split q)) / 50)
      in if score < 0.3 then SIMPLE else if score < 0.6 then MODERATE
         else if score < 0.8 then COMPLEX else MULTI_HOP)"
  by (simp add: analyze_query_def Let_def)









section \<open>Properties of pipeline execution\<close>

lemma snd_execute_classic_rag:
  "snd (execute_classic_rag tm self md) = self\<lparr>calls := calls self @ [ClassicProcess]\<rparr>"
  by (simp add: execute_classic_rag_def Let_def split: sum.splits option.splits)

lemma snd_execute_agentic_rag:
  "snd (execute_agentic_rag tm self md) = self\<lparr>calls := calls self @ [Orchestrate]\<rparr>"
  by (simp add: execute_agentic_rag_def Let_def split: sum.splits option.splits)

lemma fst_execute_agentic_rag_calls:
  "fst (execute_agentic_rag tm (self\<lparr>calls := cs\<rparr>) md) = fst (execute_agentic_rag tm self md)"
  by (simp add: execute_agentic_rag_def Let_def split: sum.splits option.splits)

lemma execute_classic_rag_result:
  assumes "fst (execute_classic_rag tm self md) = Inr r"
  shows "strategy_used r = CLASSIC_RAG \<and> \<not> cached r \<and> \<not> fallback_used r \<and> error r = None"
  using assms by (auto simp: execute_classic_rag_def Let_def split: sum.splits option.splits)

lemma execute_agentic_rag_result:
  assumes "fst (execute_agentic_rag tm self md) = Inr r"
  shows "strategy_used r = AGENTIC_RAG \<and> \<not> cached r \<and> \<not> fallback_used r \<and> error r = None"
  using assms by (auto simp: execute_agentic_rag_def Let_def split: sum.splits option.splits)

lemma execute_hybrid_eq:
  "execute_hybrid tm self md =
    ((case (fst (execute_classic_rag tm self md), fst (execute_agentic_rag tm self md)) of
        (Inr c, Inr a) \<Rightarrow>
           Inr ((if confidence_score a > confidence_score c then a else c)\<lparr>strategy_used := HYBRID\<rparr>)
      | (Inl ec, Inr a) \<Rightarrow> Inl ec
      | (Inr c, Inl ea) \<Rightarrow> Inl ea
      | (Inl ec, Inl ea) \<Rightarrow> Inl (if agentic_raises_first tm then ea else ec)),
     self\<lparr>calls := calls self @ [ClassicProcess, Orchestrate]\<rparr>)"
proof -
  obtain co s1 where c: "execute_classic_rag tm self md = (co, s1)"
    by (cases "execute_classic_rag tm self md")
  then have s1: "s1 = self\<lparr>calls := calls self @ [ClassicProcess]\<rparr>"
    using snd_execute_classic_rag [of tm self md] by simp
  obtain ao s2 where a: "execute_agentic_rag tm s1 md = (ao, s2)"
    by (cases "execute_agentic_rag tm s1 md")
  then have s2: "s2 = self\<lparr>calls := calls self @ [ClassicProcess, Orchestrate]\<rparr>"
    using snd_execute_agentic_rag [of tm s1 md] s1 by simp
  have ao: "ao = fst (execute_agentic_rag tm self md)"
    using a s1 fst_execute_agentic_rag_calls [where tm = tm and self = self
        and cs = "calls self @ [ClassicProcess]" and md = md] by simp
  have "execute_hybrid tm self md =
          ((case (co, ao) of
              (Inr c, Inr a) \<Rightarrow>
                 Inr ((if confidence_score a > confidence_score c then a else c)\<lparr>strategy_used := HYBRID\<rparr>)
            | (Inl ec, Inr a) \<Rightarrow> Inl ec
            | (Inr c, Inl ea) \<Rightarrow> Inl ea
            | (Inl ec, Inl ea) \<Rightarrow> Inl (if agentic_raises_first tm then ea else ec)), s2)"
    by (simp add: execute_hybrid_def c a split: sum.splits)
  moreover have "co = fst (execute_classic_rag tm self md)" using c by simp
  ultimately show ?thesis using s2 ao by simp
qed

text \<open>The pipelines of the concrete systems, run once.\<close>

lemma classic_answering:
  "fst (execute_classic_rag tm (rag (answering a c) ag) md) =
     Inr \<lparr>query_id = QueryMetadata.query_id md, answer = a,
                     strategy_used = CLASSIC_RAG,
                     confidence_score = get_or c 0.8,
                     relevance_score = 0.8,
                     latency_ms = classic_ms tm,
                     tokens_used = 0,
                     cost_usd = 0.001,
                     documents_retrieved = [],
                     agents_used = [], agent_results = [],
                     execution_path = [str ''classic_rag''], reasoning_chain = [],
                     metadata = md, cached = False, fallback_used = False,
                     error = None\<rparr>"
  by (simp add: execute_classic_rag_def rag_def init_def answering_def answer_dict_def get_or_def)

lemma classic_failing:
  "fst (execute_classic_rag tm (rag (failing m) ag) md) = Inl (Raised m)"
  by (simp add: execute_classic_rag_def rag_def init_def failing_def)

lemma agentic_failing:
  "fst (execute_agentic_rag tm (rag cl (failing m)) md) = Inl (Raised m)"
  by (simp add: execute_agentic_rag_def rag_def init_def failing_def)

lemma agentic_answering:
  "fst (execute_agentic_rag tm (rag cl (answering a c)) md) =
     Inr \<lparr>query_id = QueryMetadata.query_id md, answer = a,
                     strategy_used = AGENTIC_RAG,
                     confidence_score = get_or c 0.9,
                     relevance_score = 0.9,
                     latency_ms = agentic_ms tm,
                     tokens_used = 0,
                     cost_usd = 0.01,
                     documents_retrieved = [],
                     agents_used = [], agent_results = [],
                     execution_path = [], reasoning_chain = [],
                     metadata = md, cached = False, fallback_used = False,
                     error = None\<rparr>"
  by (simp add: execute_agentic_rag_def rag_def init_def answering_def answer_dict_def get_or_def)

text \<open>
  Claim C6. When both pipelines succeed, hybrid execution returns the agentic result if
  its confidence score is strictly higher than the classic one's and the classic result
  otherwise (so a tie goes to classic), and the returned result has \<open>strategy_used\<close> set
  to \<open>hybrid\<close>.
\<close>

theorem C6_hybrid_returns_more_confident:
  assumes "fst (execute_classic_rag tm self md) = Inr classic_result"
      and "fst (execute_agentic_rag tm self md) = Inr agentic_result"
  shows "fst (execute_hybrid tm self md) =
           Inr ((if confidence_score classic_result < confidence_score agentic_result
                 then agentic_result else classic_result)\<lparr>strategy_used := HYBRID\<rparr>)"
  using assms by (simp add: execute_hybrid_eq)

theorem C6_hybrid_returns_more_confident_witness:
  "fst (execute_hybrid tm0 (rag (answering (str ''A'') None) (answering (str ''B'') (Some 0.8))) md0)
     = Inr \<lparr>query_id = QueryMetadata.query_id md0, answer = str ''A'',
            strategy_used = HYBRID, confidence_score = 0.8, relevance_score = 0.8,
            latency_ms = 5, tokens_used = 0, cost_usd = 0.001, documents_retrieved = [],
            agents_used = [], agent_results = [], execution_path = [str ''classic_rag''],
            reasoning_chain = [], metadata = md0, cached = False, fallback_used = False,
            error = None\<rparr>"
proof -
  have c: "fst (execute_classic_rag tm0
              (rag (answering (str ''A'') None) (answering (str ''B'') (Some 0.8))) md0) = Inr
     \<lparr>query_id = QueryMetadata.query_id md0, answer = str ''A'',
            strategy_used = CLASSIC_RAG, confidence_score = get_or None 0.8, relevance_score = 0.8,
            latency_ms = classic_ms tm0, tokens_used = 0, cost_usd = 0.001, documents_retrieved = [],
            agents_used = [], agent_results = [], execution_path = [str ''classic_rag''],
            reasoning_chain = [], metadata = md0, cached = False, fallback_used = False,
            error = None\<rparr>"
    by (rule classic_answering)
  have a: "fst (execute_agentic_rag tm0
              (rag (answering (str ''A'') None) (answering (str ''B'') (Some 0.8))) md0) = Inr
     \<lparr>query_id = QueryMetadata.query_id md0, answer = str ''B'',
            strategy_used = AGENTIC_RAG, confidence_score = get_or (Some 0.8) 0.9, relevance_score = 0.9,
            latency_ms = agentic_ms tm0, tokens_used = 0, cost_usd = 0.01, documents_retrieved = [],
            agents_used = [], agent_results = [], execution_path = [],
            reasoning_chain = [], metadata = md0, cached = False, fallback_used = False,
            error = None\<rparr>"
    by (rule agentic_answering)
  from C6_hybrid_returns_more_confident [OF c a] show ?thesis
    by (simp add: get_or_def tm0_def)
qed


text \<open>
  Claim C5, amended. Hybrid execution tolerates no failure: if exactly one pipeline
  fails, the hybrid execution fails with that pipeline's error and the surviving result
  is discarded; if both fail, it fails with the error of the pipeline that failed first.
\<close>

theorem C5_hybrid_failure_amended:
  "(fst (execute_classic_rag tm self md) = Inl ec \<and> fst (execute_agentic_rag tm self md) = Inr a
      \<longrightarrow> fst (execute_hybrid tm self md) = Inl ec)
   \<and> (fst (execute_classic_rag tm self md) = Inr c \<and> fst (execute_agentic_rag tm self md) = Inl ea
      \<longrightarrow> fst (execute_hybrid tm self md) = Inl ea)
   \<and> (fst (execute_classic_rag tm self md) = Inl ec \<and> fst (execute_agentic_rag tm self md) = Inl ea
      \<longrightarrow> fst (execute_hybrid tm self md) = Inl (if agentic_raises_first tm then ea else ec))"
  by (simp add: execute_hybrid_eq)

theorem C5_hybrid_failure_amended_witness:
  "fst (execute_hybrid tm0 (rag (failing (str ''down'')) (answering (str ''B'') None)) md0)
     = Inl (Raised (str ''down''))
   \<and> fst (execute_hybrid tm0 (rag (answering (str ''A'') None) (failing (str ''boom''))) md0)
     = Inl (Raised (str ''boom''))
   \<and> fst (execute_hybrid tm0 (rag (failing (str ''down'')) (failing (str ''boom''))) md0)
     = Inl (Raised (str ''down''))"
  using C5_hybrid_failure_amended [where tm = tm0 and md = md0
          and self = "rag (failing (str ''down'')) (answering (str ''B'') None)"
          and ec = "Raised (str ''down'')"]
        C5_hybrid_failure_amended [where tm = tm0 and md = md0
          and self = "rag (answering (str ''A'') None) (failing (str ''boom''))"
          and ea = "Raised (str ''boom'')"]
        C5_hybrid_failure_amended [where tm = tm0 and md = md0
          and self = "rag (failing (str ''down'')) (failing (str ''boom''))"
          and ec = "Raised (str ''down'')" and ea = "Raised (str ''boom'')"]
  by (simp add: classic_answering classic_failing agentic_answering agentic_failing tm0_def)

text \<open>
  Claim C5 as stated fails: with a classic pipeline that answers and an agentic pipeline
  that raises, hybrid execution raises the agentic error instead of returning the
  classic result.
\<close>

theorem C5_counterexample:
  "fst (execute_hybrid tm0 (rag (answering (str ''A'') None) (failing (str ''boom''))) md0)
     = Inl (Raised (str ''boom''))"
  by (simp add: execute_hybrid_eq classic_answering agentic_failing)


section \<open>Properties of query\<close>

lemma fst_execute_classic_rag_calls:
  "fst (execute_classic_rag tm (self\<lparr>calls := cs\<rparr>) md) = fst (execute_classic_rag tm self md)"
  by (simp add: execute_classic_rag_def Let_def split: sum.splits option.splits)

lemma execute_hybrid_result:
  assumes "fst (execute_hybrid tm self md) = Inr r"
  shows "strategy_used r = HYBRID \<and> \<not> cached r \<and> \<not> fallback_used r \<and> error r = None"
proof -
  from assms obtain c a where c: "fst (execute_classic_rag tm self md) = Inr c"
    and a: "fst (execute_agentic_rag tm self md) = Inr a"
    and r: "r = (if confidence_score a > confidence_score c then a else c)\<lparr>strategy_used := HYBRID\<rparr>"
    by (auto simp: execute_hybrid_eq split: sum.splits)
  from execute_classic_rag_result [OF c] execute_agentic_rag_result [OF a] r
  show ?thesis by simp
qed

lemma execute_query_result:
  assumes "fst (execute_query lib tm self md d) = Inr r"
  shows "strategy_used r = strategy d \<and> strategy d \<noteq> CACHE
         \<and> \<not> cached r \<and> \<not> fallback_used r \<and> error r = None"
  using assms execute_classic_rag_result [of tm self md r]
        execute_agentic_rag_result [of tm self md r] execute_hybrid_result [of tm self md r]
  by (cases "strategy d") (simp_all add: execute_query_def)

lemma snd_execute_query:
  "snd (execute_query lib tm self md d) = self\<lparr>calls := calls self @ pipeline_events (strategy d)\<rparr>"
  by (cases "strategy d")
     (simp_all add: execute_query_def snd_execute_classic_rag snd_execute_agentic_rag
        execute_hybrid_eq)

lemma fst_execute_query_calls:
  "fst (execute_query lib tm (self\<lparr>calls := cs\<rparr>) md d) = fst (execute_query lib tm self md d)"
  by (cases "strategy d")
     (simp_all add: execute_query_def fst_execute_classic_rag_calls
        fst_execute_agentic_rag_calls execute_hybrid_eq)

lemma original_query_analyze [simp]:
  "original_query (analyze_query self q qid uid sid) = q"
  by (simp add: analyze_query_def Let_def)


text \<open>The lookup step of \<open>query\<close>, then its result and its calls in closed form.\<close>

lemma lookup_step:
  "(if cache_enabled self \<and> force = None then check_cache self (analyze_query self q qid uid sid)
    else (None, self))
   = ((if force = None then map_option (\<lambda>stored. stored\<lparr>cached := True\<rparr>) (cache_lookup self q)
       else None),
      self\<lparr>calls := calls self @ lookup_events self q force\<rparr>)"
  by (auto simp: check_cache_def cache_lookup_def lookup_events_def Let_def split: option.splits)

lemma fst_case_outcome:
  "fst (case p of (Inl e, s) \<Rightarrow> (f e, s) | (Inr r, s) \<Rightarrow> (g r, h r s))
     = (case fst p of Inl e \<Rightarrow> f e | Inr r \<Rightarrow> g r)"
  by (auto split: prod.splits sum.splits)

lemma fst_query:
  "fst (query lib tm qid self q uid sid force) =
    (case (if force = None then cache_lookup self q else None) of
       Some stored \<Rightarrow> stored\<lparr>cached := True\<rparr>
     | None \<Rightarrow>
        (case fst (execute_query lib tm self (analyze_query self q qid uid sid)
                     (route_query lib self (analyze_query self q qid uid sid) force)) of
           Inl e \<Rightarrow> create_error_result qid (Some (analyze_query self q qid uid sid))
                      (exn_str e) (total_ms tm)
         | Inr res \<Rightarrow> res\<lparr>latency_ms := total_ms tm\<rparr>))"
proof -
  let ?md = "analyze_query self q qid uid sid"
  let ?self1 = "self\<lparr>calls := calls self @ lookup_events self q force\<rparr>"
  have d: "\<And>cs f. route_query lib (self\<lparr>calls := cs\<rparr>) ?md f = route_query lib self ?md f"
    by (simp add: route_query_def)
  show ?thesis
  proof (cases "if force = None then cache_lookup self q else None")
    case None
    then have "(if force = None
                then map_option (\<lambda>stored. stored\<lparr>cached := True\<rparr>) (cache_lookup self q)
                else None) = None"
      by (auto split: if_splits)
    with None show ?thesis
      unfolding query_def Let_def lookup_step
      by (simp add: d fst_case_outcome fst_execute_query_calls)
  next
    case (Some stored)
    then have "(if force = None
                then map_option (\<lambda>stored. stored\<lparr>cached := True\<rparr>) (cache_lookup self q)
                else None) = Some (stored\<lparr>cached := True\<rparr>)"
      by (simp split: if_splits)
    with Some show ?thesis
      unfolding query_def Let_def lookup_step
      by simp
  qed
qed

lemma calls_case_outcome:
  "calls (snd (case p of (Inl e, s) \<Rightarrow> (f e, s) | (Inr r, s) \<Rightarrow> (g r, h r s)))
     = (case fst p of Inl e \<Rightarrow> calls (snd p) | Inr r \<Rightarrow> calls (h r (snd p)))"
  by (auto split: prod.splits sum.splits)

lemma calls_query:
  "calls (snd (query lib tm qid self q uid sid force)) =
    calls self @
    (case (if force = None then cache_lookup self q else None) of
       Some stored \<Rightarrow> [CacheGet q]
     | None \<Rightarrow>
        lookup_events self q force
        @ pipeline_events (strategy (route_query lib self (analyze_query self q qid uid sid) force))
        @ (case fst (execute_query lib tm self (analyze_query self q qid uid sid)
                     (route_query lib self (analyze_query self q qid uid sid) force)) of
             Inl e \<Rightarrow> []
           | Inr res \<Rightarrow> store_events self q))"
proof -
  let ?md = "analyze_query self q qid uid sid"
  let ?self1 = "self\<lparr>calls := calls self @ lookup_events self q force\<rparr>"
  have d: "\<And>cs f. route_query lib (self\<lparr>calls := cs\<rparr>) ?md f = route_query lib self ?md f"
    by (simp add: route_query_def)
  have frame: "\<And>cs. cache_enabled (self\<lparr>calls := cs\<rparr>) = cache_enabled self
      \<and> monitoring_enabled (self\<lparr>calls := cs\<rparr>) = monitoring_enabled self
      \<and> cache (self\<lparr>calls := cs\<rparr>) = cache self
      \<and> metrics (self\<lparr>calls := cs\<rparr>) = metrics self"
    by simp
  have tail: "\<And>s res. cache_enabled s = cache_enabled self \<Longrightarrow>
      monitoring_enabled s = monitoring_enabled self \<Longrightarrow> cache s = cache self \<Longrightarrow>
      metrics s = metrics self \<Longrightarrow>
      calls (if monitoring_enabled (if cache_enabled s then save_to_cache s ?md res else s)
             then collect_metrics (if cache_enabled s then save_to_cache s ?md res else s) res
             else (if cache_enabled s then save_to_cache s ?md res else s))
       = calls s @ store_events self q"
    by (auto simp: store_events_def save_to_cache_def collect_metrics_def split: option.splits)
  show ?thesis
  proof (cases "if force = None then cache_lookup self q else None")
    case None
    then have "(if force = None
                then map_option (\<lambda>stored. stored\<lparr>cached := True\<rparr>) (cache_lookup self q)
                else None) = None"
      by (auto split: if_splits)
    note miss = this
    let ?d = "route_query lib self ?md force"
    obtain out s2 where ex: "execute_query lib tm ?self1 ?md ?d = (out, s2)"
      by (cases "execute_query lib tm ?self1 ?md ?d")
    have out: "fst (execute_query lib tm self ?md ?d) = out"
      using ex fst_execute_query_calls [where self = self and md = "?md" and d = "?d"
                 and cs = "calls self @ lookup_events self q force" and lib = lib and tm = tm]
      by simp
    have s2: "s2 = ?self1\<lparr>calls := calls ?self1 @ pipeline_events (strategy ?d)\<rparr>"
      using ex snd_execute_query [of lib tm ?self1 ?md ?d] by simp
    let ?fin = "\<lambda>s res.
            (if monitoring_enabled (if cache_enabled s then save_to_cache s ?md res else s)
             then collect_metrics (if cache_enabled s then save_to_cache s ?md res else s) res
             else (if cache_enabled s then save_to_cache s ?md res else s))"
    have unf: "query lib tm qid self q uid sid force =
           (case out of
              Inl e \<Rightarrow> (create_error_result qid (Some ?md) (exn_str e) (total_ms tm), s2)
            | Inr res \<Rightarrow> (res\<lparr>latency_ms := total_ms tm\<rparr>, ?fin s2 res))"
      unfolding query_def Let_def lookup_step miss
      using ex by (simp add: d)
    show ?thesis
    proof (cases out)
      case (Inl e)
      show ?thesis using None by (simp add: unf out Inl s2)
    next
      case (Inr res)
      have "calls (?fin s2 res) = calls s2 @ store_events self q"
        by (rule tail) (simp_all add: s2)
      then show ?thesis using None by (simp add: unf out Inr s2)
    qed
  next
    case (Some stored)
    then have ev: "lookup_events self q force = [CacheGet q]"
      by (auto simp: lookup_events_def cache_lookup_def split: if_splits option.splits)
    from Some have "(if force = None
                then map_option (\<lambda>stored. stored\<lparr>cached := True\<rparr>) (cache_lookup self q)
                else None) = Some (stored\<lparr>cached := True\<rparr>)"
      by (simp split: if_splits)
    with Some ev show ?thesis
      unfolding query_def Let_def lookup_step
      by simp
  qed
qed


lemma cache_query:
  "cache_enabled (snd (query lib tm qid self q uid sid force)) = cache_enabled self
   \<and> cache (snd (query lib tm qid self q uid sid force)) =
    (case (if force = None then cache_lookup self q else None) of
       Some stored \<Rightarrow> cache self
     | None \<Rightarrow>
        (case fst (execute_query lib tm self (analyze_query self q qid uid sid)
                     (route_query lib self (analyze_query self q qid uid sid) force)) of
           Inl e \<Rightarrow> cache self
         | Inr res \<Rightarrow>
            (if cache_enabled self then map_option (\<lambda>store. store(q \<mapsto> res)) (cache self)
             else cache self)))"
proof -
  let ?md = "analyze_query self q qid uid sid"
  let ?self1 = "self\<lparr>calls := calls self @ lookup_events self q force\<rparr>"
  let ?d = "route_query lib self ?md force"
  let ?fin = "\<lambda>s res.
          (if monitoring_enabled (if cache_enabled s then save_to_cache s ?md res else s)
           then collect_metrics (if cache_enabled s then save_to_cache s ?md res else s) res
           else (if cache_enabled s then save_to_cache s ?md res else s))"
  have d: "\<And>cs f. route_query lib (self\<lparr>calls := cs\<rparr>) ?md f = route_query lib self ?md f"
    by (simp add: route_query_def)
  have tail: "\<And>s res. cache_enabled s = cache_enabled self \<Longrightarrow> cache s = cache self \<Longrightarrow>
      cache_enabled (?fin s res) = cache_enabled self
      \<and> cache (?fin s res) =
          (if cache_enabled self then map_option (\<lambda>store. store(q \<mapsto> res)) (cache self)
           else cache self)"
    by (auto simp: save_to_cache_def collect_metrics_def split: option.splits)
  show ?thesis
  proof (cases "if force = None then cache_lookup self q else None")
    case None
    then have miss: "(if force = None
                then map_option (\<lambda>stored. stored\<lparr>cached := True\<rparr>) (cache_lookup self q)
                else None) = None"
      by (auto split: if_splits)
    obtain out s2 where ex: "execute_query lib tm ?self1 ?md ?d = (out, s2)"
      by (cases "execute_query lib tm ?self1 ?md ?d")
    have out: "fst (execute_query lib tm self ?md ?d) = out"
      using ex fst_execute_query_calls [where self = self and md = "?md" and d = "?d"
                 and cs = "calls self @ lookup_events self q force" and lib = lib and tm = tm]
      by simp
    have s2: "s2 = ?self1\<lparr>calls := calls ?self1 @ pipeline_events (strategy ?d)\<rparr>"
      using ex snd_execute_query [of lib tm ?self1 ?md ?d] by simp
    have unf: "query lib tm qid self q uid sid force =
           (case out of
              Inl e \<Rightarrow> (create_error_result qid (Some ?md) (exn_str e) (total_ms tm), s2)
            | Inr res \<Rightarrow> (res\<lparr>latency_ms := total_ms tm\<rparr>, ?fin s2 res))"
      unfolding query_def Let_def lookup_step miss
      using ex by (simp add: d)
    show ?thesis
    proof (cases out)
      case (Inl e)
      show ?thesis using None by (simp add: unf out Inl s2)
    next
      case (Inr res)
      have "cache_enabled (?fin s2 res) = cache_enabled self
            \<and> cache (?fin s2 res) =
               (if cache_enabled self then map_option (\<lambda>store. store(q \<mapsto> res)) (cache self)
                else cache self)"
        by (rule tail) (simp_all add: s2)
      then show ?thesis using None by (simp add: unf out Inr s2)
    qed
  next
    case (Some stored)
    then have "(if force = None
                then map_option (\<lambda>stored. stored\<lparr>cached := True\<rparr>) (cache_lookup self q)
                else None) = Some (stored\<lparr>cached := True\<rparr>)"
      by (simp split: if_splits)
    with Some show ?thesis
      unfolding query_def Let_def lookup_step
      by simp
  qed
qed

lemma request_calls_query:
  "request_calls self (snd (query lib tm qid self q uid sid force)) =
    (case (if force = None then cache_lookup self q else None) of
       Some stored \<Rightarrow> [CacheGet q]
     | None \<Rightarrow>
        lookup_events self q force
        @ pipeline_events (strategy (route_query lib self (analyze_query self q qid uid sid) force))
        @ (case fst (execute_query lib tm self (analyze_query self q qid uid sid)
                     (route_query lib self (analyze_query self q qid uid sid) force)) of
             Inl e \<Rightarrow> []
           | Inr res \<Rightarrow> store_events self q))"
  by (simp add: request_calls_def calls_query)

text \<open>
  Claim C1, amended. Every result returned by \<open>query\<close> has a \<open>strategy_used\<close> among
  classic, agentic, hybrid and cache, and \<open>strategy_used = cache\<close> only if \<open>cached\<close> is
  true. The converse does not hold: \<open>cached\<close> is true exactly when the result was returned
  by the cache lookup of an unforced request, and that result is the stored entry with
  only its \<open>cached\<close> flag set, so it keeps the \<open>strategy_used\<close> it was stored with.
\<close>

theorem C1_strategy_and_cached_amended:
  assumes "query lib tm qid self q uid sid force = (r, self')"
  shows "strategy_used r \<in> {CLASSIC_RAG, AGENTIC_RAG, HYBRID, CACHE}
         \<and> (strategy_used r = CACHE \<longrightarrow> cached r)
         \<and> (cached r \<longleftrightarrow> force = None \<and> cache_lookup self q \<noteq> None)
         \<and> (\<forall>stored. force = None \<and> cache_lookup self q = Some stored
               \<longrightarrow> r = stored\<lparr>cached := True\<rparr>)"
proof -
  let ?md = "analyze_query self q qid uid sid"
  let ?out = "fst (execute_query lib tm self ?md (route_query lib self ?md force))"
  have r: "r = fst (query lib tm qid self q uid sid force)" using assms by simp
  have any: "strategy_used r \<in> {CLASSIC_RAG, AGENTIC_RAG, HYBRID, CACHE}"
    by (cases "strategy_used r") simp_all
  show ?thesis
  proof (cases "if force = None then cache_lookup self q else None")
    case (Some stored)
    then have "r = stored\<lparr>cached := True\<rparr>" by (simp add: r fst_query)
    with Some any show ?thesis by (auto split: if_splits)
  next
    case None
    then have miss: "\<not> (force = None \<and> cache_lookup self q \<noteq> None)"
      by (auto split: if_splits)
    have "\<not> cached r \<and> strategy_used r \<noteq> CACHE"
    proof (cases ?out)
      case (Inl e)
      with None show ?thesis by (simp add: r fst_query create_error_result_def)
    next
      case (Inr res)
      from execute_query_result [OF Inr] Inr None show ?thesis
        by (simp add: r fst_query)
    qed
    with miss any show ?thesis by auto
  qed
qed


subsection \<open>Evaluation on the concrete systems\<close>

lemma complexity_what_is: "complexity (analyze_query self q_what_is qid uid sid) = SIMPLE"
  by (simp add: analyze_query_complexity q_what_is_def split_def is_space_def)

lemma query_id_analyze [simp]:
  "QueryMetadata.query_id (analyze_query self q qid uid sid) = qid"
  by (simp add: analyze_query_def Let_def)

lemma route_what_is:
  "strategy (route_query lib self (analyze_query self q_what_is qid uid sid) None) = CLASSIC_RAG"
  by (simp add: route_query_def route_strategy complexity_what_is determine_strategy_def)

lemma route_query_forced: "strategy (route_query lib self md (Some f)) = f"
  by (simp add: route_query_def)

lemma execute_query_classic:
  "strategy d = CLASSIC_RAG \<Longrightarrow>
     fst (execute_query lib tm self md d) = fst (execute_classic_rag tm self md)"
  by (simp add: execute_query_def)

lemma execute_query_agentic:
  "strategy d = AGENTIC_RAG \<Longrightarrow>
     fst (execute_query lib tm self md d) = fst (execute_agentic_rag tm self md)"
  by (simp add: execute_query_def)

lemma execute_query_cache:
  "strategy d = CACHE \<Longrightarrow>
     fst (execute_query lib tm self md d) =
       Inl (ValueError ([1053, 1077, 1080, 1079, 1074, 1077, 1089, 1090, 1085, 1072, 1103,
                         32, 1089, 1090, 1088, 1072, 1090, 1077, 1075, 1080, 1103, 58, 32]
                        @ enum_format lib CACHE))"
  by (simp add: execute_query_def)

lemma rag_demo_flags:
  "cache_enabled rag_demo \<and> monitoring_enabled rag_demo \<and> cache rag_demo = Some Map.empty
   \<and> metrics rag_demo = Some [] \<and> calls rag_demo = []"
  by (simp add: rag_demo_def rag_def init_def)

lemma cache_lookup_demo: "cache_lookup rag_demo q = None"
  by (simp add: cache_lookup_def rag_demo_flags)

lemma execute_demo_what_is:
  "fst (execute_query lib tm rag_demo (analyze_query rag_demo q_what_is qid uid sid)
          (route_query lib rag_demo (analyze_query rag_demo q_what_is qid uid sid) None))
   = Inr \<lparr>query_id = qid, answer = str ''A'', strategy_used = CLASSIC_RAG,
           confidence_score = 0.8, relevance_score = 0.8, latency_ms = classic_ms tm,
           tokens_used = 0, cost_usd = 0.001, documents_retrieved = [], agents_used = [],
           agent_results = [], execution_path = [str ''classic_rag''], reasoning_chain = [],
           metadata = analyze_query rag_demo q_what_is qid uid sid, cached = False,
           fallback_used = False, error = None\<rparr>"
  by (simp add: execute_query_classic route_what_is rag_demo_def classic_answering get_or_def)

lemma cache_lookup_warm:
  "cache_lookup rag_warm q_what_is =
     Some \<lparr>query_id = [49], answer = str ''A'', strategy_used = CLASSIC_RAG,
           confidence_score = 0.8, relevance_score = 0.8, latency_ms = 5,
           tokens_used = 0, cost_usd = 0.001, documents_retrieved = [], agents_used = [],
           agent_results = [], execution_path = [str ''classic_rag''], reasoning_chain = [],
           metadata = analyze_query rag_demo q_what_is [49] None None, cached = False,
           fallback_used = False, error = None\<rparr>"
  by (simp add: cache_lookup_def rag_warm_def cache_query cache_lookup_demo execute_demo_what_is
        rag_demo_flags tm0_def)

text \<open>
  Claim C1 as stated fails: the system that has answered a query through the classic
  pipeline answers the same query again from its cache, and that result has \<open>cached\<close>
  true while its \<open>strategy_used\<close> is still classic, not cache.
\<close>

theorem C1_counterexample:
  "cached (fst (query basic_lib tm0 [50] rag_warm q_what_is None None None))
   \<and> strategy_used (fst (query basic_lib tm0 [50] rag_warm q_what_is None None None)) = CLASSIC_RAG"
  by (simp add: fst_query cache_lookup_warm)

text \<open>The amended claim C1 at a cache hit and at a cache miss.\<close>

theorem C1_strategy_and_cached_amended_witness:
  "cached (fst (query basic_lib tm0 [50] rag_warm q_what_is None None None))
   \<and> \<not> cached (fst (query basic_lib tm0 [49] rag_demo q_what_is None None None))
   \<and> strategy_used (fst (query basic_lib tm0 [49] rag_demo q_what_is None None None)) \<noteq> CACHE"
  using C1_strategy_and_cached_amended [where lib = basic_lib and tm = tm0 and qid = "[50]"
          and self = rag_warm and q = q_what_is and uid = None and sid = None and force = None
          and r = "fst (query basic_lib tm0 [50] rag_warm q_what_is None None None)"
          and self' = "snd (query basic_lib tm0 [50] rag_warm q_what_is None None None)"]
        C1_strategy_and_cached_amended [where lib = basic_lib and tm = tm0 and qid = "[49]"
          and self = rag_demo and q = q_what_is and uid = None and sid = None and force = None
          and r = "fst (query basic_lib tm0 [49] rag_demo q_what_is None None None)"
          and self' = "snd (query basic_lib tm0 [49] rag_demo q_what_is None None None)"]
  by (auto simp add: cache_lookup_warm cache_lookup_demo)

text \<open>
  Claim C3 at a failing input: the agentic strategy is forced and the orchestrator
  raises. The error field is populated, but the result reports the classic strategy,
  which was never attempted, and \<open>fallback_used\<close> true although the only call made was the
  one to the orchestrator.
\<close>

theorem C3_error_result_at_failing_input:
  "error (fst (query basic_lib tm0 [49] rag_demo q_what_is None None (Some AGENTIC_RAG)))
     = Some (str ''boom'')
   \<and> strategy_used (fst (query basic_lib tm0 [49] rag_demo q_what_is None None (Some AGENTIC_RAG)))
     = CLASSIC_RAG
   \<and> fallback_used (fst (query basic_lib tm0 [49] rag_demo q_what_is None None (Some AGENTIC_RAG)))
   \<and> request_calls rag_demo
        (snd (query basic_lib tm0 [49] rag_demo q_what_is None None (Some AGENTIC_RAG)))
     = [Orchestrate]"
  by (simp add: fst_query request_calls_query route_query_forced execute_query_agentic
        rag_demo_def agentic_failing create_error_result_def lookup_events_def)

subsection \<open>Requests not answered from the cache\<close>

lemma route_not_cache: "strategy (route_query lib self md None) \<noteq> CACHE"
  by (simp add: route_query_def route_strategy determine_strategy_not_cache)

lemma pipeline_events_nonempty:
  "s \<noteq> CACHE \<Longrightarrow> \<exists>e \<in> set (pipeline_events s). is_pipeline_call e"
  by (cases s) simp_all

lemma route_empty:
  "strategy (route_query lib self (analyze_query self [] qid uid sid) None) = CLASSIC_RAG"
  by (simp add: route_query_def route_strategy analyze_empty_simple determine_strategy_def)

lemma store_events_no_pipeline: "\<forall>e \<in> set (store_events self q). \<not> is_pipeline_call e \<and> \<not> is_cache_get e"
  by (auto simp: store_events_def)

lemma filter_pipeline_events: "filter is_pipeline_call (pipeline_events s) = pipeline_events s"
  by (cases s) simp_all

lemma filter_lookup_events: "filter is_pipeline_call (lookup_events self q force) = []"
  by (simp add: lookup_events_def)

lemma filter_store_events: "filter is_pipeline_call (store_events self q) = []"
  by (simp add: store_events_def)

text \<open>
  Claim C9, amended. \<open>query\<close> validates nothing and has no \<open>InvalidQuery\<close> error: every
  query text, empty or arbitrarily long, that is not answered from the cache is analysed
  and handed to the execution of the routed strategy or, when one is forced, of the forced
  strategy; the pipeline calls made are exactly those of that strategy. An unforced
  request always executes a pipeline, and for the empty text the classic pipeline only.
  The result carries an error exactly when the execution raises, and the message is then
  the text of the exception raised; otherwise it carries the pipeline's answer.
\<close>

theorem C9_no_input_validation_amended:
  assumes "force = None \<longrightarrow> cache_lookup self q = None"
      and "query lib tm qid self q uid sid force = (r, self')"
  shows "filter is_pipeline_call (request_calls self self')
           = pipeline_events (strategy (route_query lib self (analyze_query self q qid uid sid) force))
         \<and> (force = None \<longrightarrow>
               route_query lib self (analyze_query self q qid uid sid) force
                 = route lib (analyze_query self q qid uid sid)
               \<and> (\<exists>e \<in> set (request_calls self self'). is_pipeline_call e)
               \<and> (q = [] \<longrightarrow> ClassicProcess \<in> set (request_calls self self')
                             \<and> Orchestrate \<notin> set (request_calls self self')))
         \<and> (force = Some f \<longrightarrow>
               strategy (route_query lib self (analyze_query self q qid uid sid) force) = f)
         \<and> (case fst (execute_query lib tm self (analyze_query self q qid uid sid)
                        (route_query lib self (analyze_query self q qid uid sid) force)) of
               Inl e \<Rightarrow> error r = Some (exn_str e)
             | Inr res \<Rightarrow> error r = None \<and> answer r = answer res)"
proof -
  let ?md = "analyze_query self q qid uid sid"
  let ?d = "route_query lib self ?md force"
  let ?out = "fst (execute_query lib tm self ?md ?d)"
  have miss: "(if force = None then cache_lookup self q else None) = None"
    using assms(1) by simp
  have r: "r = fst (query lib tm qid self q uid sid force)"
    and s: "self' = snd (query lib tm qid self q uid sid force)"
    using assms(2) by simp_all
  have calls: "request_calls self self' =
      lookup_events self q force @ pipeline_events (strategy ?d)
      @ (case ?out of Inl e \<Rightarrow> [] | Inr res \<Rightarrow> store_events self q)"
    using miss by (simp add: s request_calls_query)
  have c1: "filter is_pipeline_call (request_calls self self') = pipeline_events (strategy ?d)"
    unfolding calls
    by (simp add: filter_pipeline_events filter_lookup_events filter_store_events
          split: sum.splits)
  have c2: "force = None \<longrightarrow>
               ?d = route lib ?md
               \<and> (\<exists>e \<in> set (request_calls self self'). is_pipeline_call e)
               \<and> (q = [] \<longrightarrow> ClassicProcess \<in> set (request_calls self self')
                             \<and> Orchestrate \<notin> set (request_calls self self'))"
  proof
    assume n: "force = None"
    have d: "?d = route lib ?md" using n by (simp add: route_query_def)
    have "strategy ?d \<noteq> CACHE" unfolding n by (rule route_not_cache)
    then have "\<exists>e \<in> set (pipeline_events (strategy ?d)). is_pipeline_call e"
      by (rule pipeline_events_nonempty)
    then have p: "\<exists>e \<in> set (request_calls self self'). is_pipeline_call e"
      unfolding calls by auto
    have e: "q = [] \<longrightarrow> ClassicProcess \<in> set (request_calls self self')
                             \<and> Orchestrate \<notin> set (request_calls self self')"
    proof
      assume q: "q = []"
      have "strategy ?d = CLASSIC_RAG" unfolding q n by (rule route_empty)
      then show "ClassicProcess \<in> set (request_calls self self')
                             \<and> Orchestrate \<notin> set (request_calls self self')"
        unfolding calls
        by (auto simp: lookup_events_def store_events_def split: sum.splits if_splits)
    qed
    from d p e show "?d = route lib ?md
               \<and> (\<exists>e \<in> set (request_calls self self'). is_pipeline_call e)
               \<and> (q = [] \<longrightarrow> ClassicProcess \<in> set (request_calls self self')
                             \<and> Orchestrate \<notin> set (request_calls self self'))"
      by simp
  qed
  have c3: "force = Some f \<longrightarrow> strategy ?d = f"
    by (simp add: route_query_def)
  have c4: "(case ?out of Inl e \<Rightarrow> error r = Some (exn_str e)
             | Inr res \<Rightarrow> error r = None \<and> answer r = answer res)"
  proof (cases ?out)
    case (Inl e)
    then show ?thesis using miss by (simp add: r fst_query create_error_result_def)
  next
    case (Inr res)
    from execute_query_result [OF Inr] Inr show ?thesis
      using miss by (simp add: r fst_query)
  qed
  from c1 c2 c3 c4 show ?thesis by blast
qed

lemma agentic_failing_demo:
  "fst (execute_agentic_rag tm rag_demo md) = Inl (Raised (str ''boom''))"
  by (simp add: rag_demo_def agentic_failing)

lemma execute_demo_empty:
  "fst (execute_query lib tm rag_demo (analyze_query rag_demo [] qid uid sid)
          (route_query lib rag_demo (analyze_query rag_demo [] qid uid sid) None))
   = Inr \<lparr>query_id = qid, answer = str ''A'', strategy_used = CLASSIC_RAG,
           confidence_score = 0.8, relevance_score = 0.8, latency_ms = classic_ms tm,
           tokens_used = 0, cost_usd = 0.001, documents_retrieved = [], agents_used = [],
           agent_results = [], execution_path = [str ''classic_rag''], reasoning_chain = [],
           metadata = analyze_query rag_demo [] qid uid sid, cached = False,
           fallback_used = False, error = None\<rparr>"
  by (simp add: execute_query_classic route_empty rag_demo_def classic_answering get_or_def)

text \<open>
  Claim C9 as stated fails: the empty query is looked up in the cache, executed by the
  classic pipeline, stored and measured, and its result has the pipeline's answer and no
  error.
\<close>

theorem C9_counterexample:
  "error (fst (query basic_lib tm0 [49] rag_demo [] None None None)) = None
   \<and> answer (fst (query basic_lib tm0 [49] rag_demo [] None None None)) = str ''A''
   \<and> request_calls rag_demo (snd (query basic_lib tm0 [49] rag_demo [] None None None))
       = [CacheGet [], ClassicProcess, CacheSet [], MetricsRecord]"
  by (simp add: fst_query request_calls_query cache_lookup_demo execute_demo_empty route_empty
        lookup_events_def store_events_def rag_demo_flags)

text \<open>
  The amended claim C9 at the empty query, unforced and with the agentic strategy
  forced.
\<close>

theorem C9_no_input_validation_amended_witness:
  "ClassicProcess \<in> set (request_calls rag_demo (snd (query basic_lib tm0 [49] rag_demo [] None None None)))
   \<and> error (fst (query basic_lib tm0 [49] rag_demo [] None None None)) = None
   \<and> filter is_pipeline_call
        (request_calls rag_demo (snd (query basic_lib tm0 [49] rag_demo [] None None (Some AGENTIC_RAG))))
       = [Orchestrate]
   \<and> error (fst (query basic_lib tm0 [49] rag_demo [] None None (Some AGENTIC_RAG)))
       = Some (str ''boom'')"
proof -
  have miss: "cache_lookup rag_demo [] = None" by (rule cache_lookup_demo)
  have unforced:
    "ClassicProcess \<in> set (request_calls rag_demo (snd (query basic_lib tm0 [49] rag_demo [] None None None)))
     \<and> error (fst (query basic_lib tm0 [49] rag_demo [] None None None)) = None"
    using C9_no_input_validation_amended [where lib = basic_lib and tm = tm0 and qid = "[49]"
          and self = rag_demo and q = "[]" and uid = None and sid = None and force = None
          and r = "fst (query basic_lib tm0 [49] rag_demo [] None None None)"
          and self' = "snd (query basic_lib tm0 [49] rag_demo [] None None None)"]
        miss
        execute_demo_empty [where lib = basic_lib and tm = tm0 and qid = "[49]" and uid = None
          and sid = None]
    by simp
  have forced:
    "filter is_pipeline_call
        (request_calls rag_demo (snd (query basic_lib tm0 [49] rag_demo [] None None (Some AGENTIC_RAG))))
       = [Orchestrate]
     \<and> error (fst (query basic_lib tm0 [49] rag_demo [] None None (Some AGENTIC_RAG)))
       = Some (str ''boom'')"
    using C9_no_input_validation_amended [where lib = basic_lib and tm = tm0 and qid = "[49]"
          and self = rag_demo and q = "[]" and uid = None and sid = None
          and force = "Some AGENTIC_RAG" and f = AGENTIC_RAG
          and r = "fst (query basic_lib tm0 [49] rag_demo [] None None (Some AGENTIC_RAG))"
          and self' = "snd (query basic_lib tm0 [49] rag_demo [] None None (Some AGENTIC_RAG))"]
    by (simp add: route_query_forced execute_query_agentic agentic_failing_demo)
  from unforced forced show ?thesis by simp
qed


subsection \<open>Requests with a forced strategy\<close>

lemma forced_query:
  assumes "query lib tm qid self q uid sid (Some f) = (r, self')"
  shows "\<not> cached r
         \<and> (\<forall>e \<in> set (request_calls self self'). \<not> is_cache_get e)
         \<and> (f \<noteq> CACHE \<longrightarrow>
              (\<exists>e \<in> set (request_calls self self'). is_pipeline_call e)
              \<and> take (length (pipeline_events f)) (request_calls self self') = pipeline_events f)
         \<and> (f = CACHE \<longrightarrow>
              request_calls self self' = []
              \<and> error r = Some ([1053, 1077, 1080, 1079, 1074, 1077, 1089, 1090, 1085, 1072,
                                 1103, 32, 1089, 1090, 1088, 1072, 1090, 1077, 1075, 1080, 1103,
                                 58, 32] @ enum_format lib CACHE))"
proof -
  let ?md = "analyze_query self q qid uid sid"
  let ?d = "route_query lib self ?md (Some f)"
  let ?out = "fst (execute_query lib tm self ?md ?d)"
  have r: "r = fst (query lib tm qid self q uid sid (Some f))"
    and s: "self' = snd (query lib tm qid self q uid sid (Some f))"
    using assms by simp_all
  have d: "strategy ?d = f" by (rule route_query_forced)
  have calls: "request_calls self self' =
      pipeline_events f @ (case ?out of Inl e \<Rightarrow> [] | Inr res \<Rightarrow> store_events self q)"
    by (simp add: s request_calls_query lookup_events_def d)
  have c1: "\<not> cached r"
  proof (cases ?out)
    case (Inl e)
    then show ?thesis by (simp add: r fst_query create_error_result_def)
  next
    case (Inr res)
    from execute_query_result [OF Inr] Inr show ?thesis by (simp add: r fst_query)
  qed
  have "\<forall>e \<in> set (pipeline_events f). \<not> is_cache_get e" by (cases f) simp_all
  then have c2: "\<forall>e \<in> set (request_calls self self'). \<not> is_cache_get e"
    unfolding calls using store_events_no_pipeline [of self q]
    by (auto split: sum.splits)
  have c3: "f \<noteq> CACHE \<longrightarrow>
              (\<exists>e \<in> set (request_calls self self'). is_pipeline_call e)
              \<and> take (length (pipeline_events f)) (request_calls self self') = pipeline_events f"
    unfolding calls using pipeline_events_nonempty [of f] by auto
  have c4: "f = CACHE \<longrightarrow>
              request_calls self self' = []
              \<and> error r = Some ([1053, 1077, 1080, 1079, 1074, 1077, 1089, 1090, 1085, 1072,
                                 1103, 32, 1089, 1090, 1088, 1072, 1090, 1077, 1075, 1080, 1103,
                                 58, 32] @ enum_format lib CACHE)"
  proof
    assume f: "f = CACHE"
    then have out: "?out = Inl (ValueError ([1053, 1077, 1080, 1079, 1074, 1077, 1089, 1090, 1085,
                         1072, 1103, 32, 1089, 1090, 1088, 1072, 1090, 1077, 1075, 1080, 1103, 58, 32]
                        @ enum_format lib CACHE))"
      using execute_query_cache [of ?d lib tm self ?md] d by simp
    show "request_calls self self' = []
              \<and> error r = Some ([1053, 1077, 1080, 1079, 1074, 1077, 1089, 1090, 1085, 1072,
                                 1103, 32, 1089, 1090, 1088, 1072, 1090, 1077, 1075, 1080, 1103,
                                 58, 32] @ enum_format lib CACHE)"
      unfolding calls using out f by (simp add: r fst_query create_error_result_def)
  qed
  from c1 c2 c3 c4 show ?thesis by simp
qed

text \<open>
  Claim C10, amended. For every call of \<open>query\<close> with a forced strategy the cache lookup
  is skipped, whatever the cache holds, and the returned result has \<open>cached\<close> false. When
  the forced strategy is classic, agentic or hybrid (hence for every \<open>simple_query\<close> and
  \<open>complex_query\<close> call) the request begins with the pipeline calls of that strategy.
  When the forced strategy is cache, no pipeline is executed: the request makes no call
  at all and returns the error result for an unknown strategy.
\<close>

theorem C10_forced_strategy_skips_cache_amended:
  "(query lib tm qid self q uid sid (Some f) = (r, self') \<longrightarrow>
      \<not> cached r
      \<and> (\<forall>e \<in> set (request_calls self self'). \<not> is_cache_get e)
      \<and> (f \<noteq> CACHE \<longrightarrow>
           (\<exists>e \<in> set (request_calls self self'). is_pipeline_call e)
           \<and> take (length (pipeline_events f)) (request_calls self self') = pipeline_events f)
      \<and> (f = CACHE \<longrightarrow>
           request_calls self self' = []
           \<and> error r = Some ([1053, 1077, 1080, 1079, 1074, 1077, 1089, 1090, 1085, 1072,
                              1103, 32, 1089, 1090, 1088, 1072, 1090, 1077, 1075, 1080, 1103,
                              58, 32] @ enum_format lib CACHE)))
   \<and> \<not> cached (fst (simple_query lib tm qid self q))
   \<and> take 1 (request_calls self (snd (simple_query lib tm qid self q))) = [ClassicProcess]
   \<and> \<not> cached (fst (complex_query lib tm qid self q))
   \<and> take 1 (request_calls self (snd (complex_query lib tm qid self q))) = [Orchestrate]"
proof -
  have s: "\<not> cached (fst (simple_query lib tm qid self q))
           \<and> take 1 (request_calls self (snd (simple_query lib tm qid self q))) = [ClassicProcess]"
    using forced_query [where lib = lib and tm = tm and qid = qid and self = self and q = q
            and uid = None and sid = None and f = CLASSIC_RAG
            and r = "fst (simple_query lib tm qid self q)"
            and self' = "snd (simple_query lib tm qid self q)"]
    by (simp add: simple_query_def)
  have c: "\<not> cached (fst (complex_query lib tm qid self q))
           \<and> take 1 (request_calls self (snd (complex_query lib tm qid self q))) = [Orchestrate]"
    using forced_query [where lib = lib and tm = tm and qid = qid and self = self and q = q
            and uid = None and sid = None and f = AGENTIC_RAG
            and r = "fst (complex_query lib tm qid self q)"
            and self' = "snd (complex_query lib tm qid self q)"]
    by (simp add: complex_query_def)
  from s c forced_query [of lib tm qid self q uid sid f r self'] show ?thesis by blast
qed

text \<open>
  Claim C10 as stated fails for the forced strategy cache: no pipeline is executed and
  the result carries an error.
\<close>

theorem C10_counterexample:
  "request_calls rag_warm (snd (query basic_lib tm0 [50] rag_warm q_what_is None None (Some CACHE)))
     = []
   \<and> error (fst (query basic_lib tm0 [50] rag_warm q_what_is None None (Some CACHE))) \<noteq> None"
  by (simp add: fst_query request_calls_query route_query_forced execute_query_cache
        lookup_events_def create_error_result_def)

text \<open>The amended claim C10 on a system whose cache holds an entry for the query.\<close>

theorem C10_forced_strategy_skips_cache_amended_witness:
  "cache_lookup rag_warm q_what_is \<noteq> None
   \<and> \<not> cached (fst (query basic_lib tm0 [50] rag_warm q_what_is None None (Some CLASSIC_RAG)))
   \<and> (\<exists>e \<in> set (request_calls rag_warm
                   (snd (query basic_lib tm0 [50] rag_warm q_what_is None None (Some CLASSIC_RAG)))).
          is_pipeline_call e)"
  using C10_forced_strategy_skips_cache_amended [where lib = basic_lib and tm = tm0
          and qid = "[50]" and self = rag_warm and q = q_what_is and uid = None and sid = None
          and f = CLASSIC_RAG
          and r = "fst (query basic_lib tm0 [50] rag_warm q_what_is None None (Some CLASSIC_RAG))"
          and self' = "snd (query basic_lib tm0 [50] rag_warm q_what_is None None (Some CLASSIC_RAG))"]
  by (simp add: cache_lookup_warm)


subsection \<open>Entries saved by query\<close>

text \<open>
  A freshly built system has a clean cache, and \<open>query\<close> keeps it clean: on a system
  whose cache was filled by \<open>query\<close> alone, no result ever has the strategy \<open>cache\<close>,
  cache hits included.
\<close>

lemma cache_clean_init: "cache_clean (init st lang ce me ucs uac classic agentic)"
  by (simp add: cache_clean_def init_def)

lemma cache_clean_query:
  assumes "cache_clean self"
  shows "cache_clean (snd (query lib tm qid self q uid sid force))
         \<and> strategy_used (fst (query lib tm qid self q uid sid force)) \<noteq> CACHE"
proof -
  let ?md = "analyze_query self q qid uid sid"
  let ?out = "fst (execute_query lib tm self ?md (route_query lib self ?md force))"
  show ?thesis
  proof (cases "if force = None then cache_lookup self q else None")
    case (Some stored)
    then have "cache_lookup self q = Some stored" by (simp split: if_splits)
    then have "strategy_used stored \<noteq> CACHE"
      using assms by (auto simp: cache_clean_def cache_lookup_def split: if_splits option.splits)
    with Some assms show ?thesis
      by (simp add: fst_query cache_query cache_clean_def)
  next
    case None
    show ?thesis
    proof (cases ?out)
      case (Inl e)
      with None assms show ?thesis
        by (simp add: fst_query cache_query cache_clean_def create_error_result_def)
    next
      case (Inr res)
      from execute_query_result [OF Inr] have "strategy_used res \<noteq> CACHE" by simp
      with Inr None assms show ?thesis
        by (auto simp: fst_query cache_query cache_clean_def split: if_splits)
    qed
  qed
qed


end
